theory Spec2Isabelle
  imports Main "HOL-Library.Word"
begin

section \<open>The cpu cgroup controller of libcontainer (cgroups/fs/cpu.go)\<close>

text \<open>
  The controller is a sequence of calls into the operating system: creating a directory,
  writing control files, placing a pid into the procs file, reading \<open>cpu.stat\<close>.
  The embedding keeps the Go control flow of each method and makes the operating system
  explicit: every mutating call is answered by a \<open>kernel\<close>, a function of the log of all
  calls made so far, and is appended to that log together with its answer. A Go method
  returning \<open>error\<close> becomes a function from the log to \<open>error option\<close> (\<open>None\<close> is
  \<open>nil\<close>) and the extended log.
\<close>

subsection \<open>Errors\<close>

text \<open>
  Go \<open>error\<close> values. The source classifies them with two predicates only:
  \<open>cgroups.IsNotFound\<close> (the subsystem has no mountpoint) and \<open>os.IsNotExist\<close>
  (the file is absent). Every other error is opaque to cpu.go.
\<close>

datatype error =
    NotFoundError string
  | ErrNotExist string
  | ErrOther string

text \<open>
  Modelled from the spec: \<open>cgroups.IsNotFound\<close> is defined outside cpu.go; the
  resolution error distinguishes "subsystem not mounted" from every other failure.
\<close>

definition IsNotFound :: "error \<Rightarrow> bool" where
  "IsNotFound err = (case err of NotFoundError _ \<Rightarrow> True | _ \<Rightarrow> False)"

text \<open>\<open>os.IsNotExist\<close> of the Go standard library: the file or directory is absent.\<close>

definition IsNotExist :: "error \<Rightarrow> bool" where
  "IsNotExist err = (case err of ErrNotExist _ \<Rightarrow> True | _ \<Rightarrow> False)"

subsection \<open>Configuration\<close>

text \<open>
  The fields of \<open>configs.Resources\<close> that cpu.go reads, with their Go types:
  \<open>CpuShares\<close>, \<open>CpuPeriod\<close> and \<open>CpuRtPeriod\<close> are \<open>uint64\<close>, \<open>CpuQuota\<close> and
  \<open>CpuRtRuntime\<close> are \<open>int64\<close>. The \<open>Resources\<close> pointer of a \<open>configs.Cgroup\<close> is
  taken to be non-nil.
\<close>

record Resources =
  CpuShares :: "64 word"
  CpuPeriod :: "64 word"
  CpuQuota :: "64 word"
  CpuRtPeriod :: "64 word"
  CpuRtRuntime :: "64 word"

record Cgroup =
  Resources :: Resources

text \<open>
  \<open>cgroupData\<close>: the receiver of \<open>Apply\<close>. Its method \<open>path\<close> is defined outside
  cpu.go and is carried as a field: it returns the Go pair of a path and an error.
\<close>

record cgroupData =
  path :: "string \<Rightarrow> string \<times> error option"
  config :: Cgroup
  pid :: int

subsection \<open>Decimal formatting\<close>

text \<open>\<open>strconv.FormatUint(x, 10)\<close> and \<open>strconv.FormatInt(x, 10)\<close>.\<close>

definition digit_char :: "nat \<Rightarrow> char" where
  "digit_char n = char_of (48 + n)"

function dec_digits :: "nat \<Rightarrow> string" where
  "dec_digits n = (if n < 10 then [digit_char n] else dec_digits (n div 10) @ [digit_char (n mod 10)])"
  by pat_completeness auto
termination
  by (relation "measure id") auto

declare dec_digits.simps [simp del]

definition FormatUint :: "64 word \<Rightarrow> string" where
  "FormatUint x = dec_digits (unat x)"

definition FormatInt :: "64 word \<Rightarrow> string" where
  "FormatInt x = (if sint x < 0 then CHR ''-'' # dec_digits (nat (- sint x)) else dec_digits (nat (sint x)))"

subsection \<open>The operating system\<close>

text \<open>
  The mutating calls cpu.go makes: \<open>os.MkdirAll(path, perm)\<close>,
  \<open>writeFile(dir, file, data)\<close> and \<open>cgroups.WriteCgroupProc(dir, pid)\<close>. An event is
  a call with its answer; the kernel answers a call from the log of the events before it,
  so the same write may be rejected once and accepted later.
\<close>

datatype call =
    MkdirAll string nat
  | WriteFile string string string
  | WriteCgroupProc string int

type_synonym event = "call \<times> error option"

type_synonym kernel = "event list \<Rightarrow> call \<Rightarrow> error option"

definition perform :: "kernel \<Rightarrow> call \<Rightarrow> event list \<Rightarrow> error option \<times> event list" where
  "perform K c h = (K h c, h @ [(c, K h c)])"

text \<open>\<open>writeFile\<close> is defined outside cpu.go: one write of one control file.\<close>

definition writeFile :: "kernel \<Rightarrow> string \<Rightarrow> string \<Rightarrow> string \<Rightarrow> event list \<Rightarrow> error option \<times> event list" where
  "writeFile K dir file data h = perform K (WriteFile dir file data) h"

subsection \<open>SetRtSched, Set, ApplyDir, Apply\<close>

definition Name :: string where
  "Name = ''cpu''"

definition SetRtSched :: "kernel \<Rightarrow> string \<Rightarrow> Cgroup \<Rightarrow> event list \<Rightarrow> error option \<times> event list" where
  "SetRtSched K dir cgroup h0 =
     (case (if CpuRtPeriod (Resources cgroup) \<noteq> 0
            then writeFile K dir ''cpu.rt_period_us'' (FormatUint (CpuRtPeriod (Resources cgroup))) h0
            else (None, h0)) of
        (Some err, h1) \<Rightarrow> (Some err, h1)
      | (None, h1) \<Rightarrow>
          (case (if CpuRtRuntime (Resources cgroup) \<noteq> 0
                 then writeFile K dir ''cpu.rt_runtime_us'' (FormatInt (CpuRtRuntime (Resources cgroup))) h1
                 else (None, h1)) of
             (Some err, h2) \<Rightarrow> (Some err, h2)
           | (None, h2) \<Rightarrow> (None, h2)))"

text \<open>
  \<open>Set\<close>: shares, then period, quota and, when the first period write was rejected
  (\<open>reorder\<close>), period again; last the real-time settings.
\<close>

definition Set :: "kernel \<Rightarrow> string \<Rightarrow> Cgroup \<Rightarrow> event list \<Rightarrow> error option \<times> event list" where
  "Set K dir cgroup h0 =
     (case (if CpuShares (Resources cgroup) \<noteq> 0
            then writeFile K dir ''cpu.shares'' (FormatUint (CpuShares (Resources cgroup))) h0
            else (None, h0)) of
        (Some err, h1) \<Rightarrow> (Some err, h1)
      | (None, h1) \<Rightarrow>
          (case (if CpuPeriod (Resources cgroup) \<noteq> 0
                 then (case writeFile K dir ''cpu.cfs_period_us'' (FormatUint (CpuPeriod (Resources cgroup))) h1 of
                         (Some err, h2) \<Rightarrow> (True, h2)
                       | (None, h2) \<Rightarrow> (False, h2))
                 else (False, h1)) of
             (reorder, h2) \<Rightarrow>
               (case (if CpuQuota (Resources cgroup) \<noteq> 0
                      then writeFile K dir ''cpu.cfs_quota_us'' (FormatInt (CpuQuota (Resources cgroup))) h2
                      else (None, h2)) of
                  (Some err, h3) \<Rightarrow> (Some err, h3)
                | (None, h3) \<Rightarrow>
                    (case (if reorder
                           then writeFile K dir ''cpu.cfs_period_us'' (FormatUint (CpuPeriod (Resources cgroup))) h3
                           else (None, h3)) of
                       (Some err, h4) \<Rightarrow> (Some err, h4)
                     | (None, h4) \<Rightarrow> SetRtSched K dir cgroup h4))))"

text \<open>\<open>ApplyDir\<close>: 0755 is 493.\<close>

definition ApplyDir :: "kernel \<Rightarrow> string \<Rightarrow> Cgroup \<Rightarrow> int \<Rightarrow> event list \<Rightarrow> error option \<times> event list" where
  "ApplyDir K dir cgroup n h0 =
     (if dir = '''' then (None, h0)
      else (case perform K (MkdirAll dir 493) h0 of
              (Some err, h1) \<Rightarrow> (Some err, h1)
            | (None, h1) \<Rightarrow>
                (case SetRtSched K dir cgroup h1 of
                   (Some err, h2) \<Rightarrow> (Some err, h2)
                 | (None, h2) \<Rightarrow> perform K (WriteCgroupProc dir n) h2)))"

definition Apply :: "kernel \<Rightarrow> cgroupData \<Rightarrow> event list \<Rightarrow> error option \<times> event list" where
  "Apply K d h0 =
     (case path d ''cpu'' of
        (p, err) \<Rightarrow>
          (if (case err of Some e \<Rightarrow> \<not> IsNotFound e | None \<Rightarrow> False)
           then (err, h0)
           else ApplyDir K p (config d) (pid d) h0))"

text \<open>
  \<open>Remove\<close> only hands the resolved path to \<open>removePath\<close>, which is defined outside
  cpu.go; it is left out.
\<close>

text \<open>The events a method appended to the log it started from.\<close>

definition performed :: "(event list \<Rightarrow> error option \<times> event list) \<Rightarrow> event list \<Rightarrow> event list" where
  "performed m h = drop (length h) (snd (m h))"

subsection \<open>Statistics\<close>

text \<open>
  \<open>cgroups.Stats\<close>. cpu.go assigns the three counters of \<open>ThrottlingData\<close> only; the
  cpu usage and the statistics of the other subsystems are kept as type parameters.
\<close>

record ThrottlingData =
  Periods :: "64 word"
  ThrottledPeriods :: "64 word"
  ThrottledTime :: "64 word"

record 'u CpuStats =
  CpuUsage :: 'u
  ThrottlingData :: ThrottlingData

record ('u, 'o) Stats =
  CpuStats :: "'u CpuStats"
  OtherStats :: 'o

definition upd_throttling :: "(ThrottlingData \<Rightarrow> ThrottlingData) \<Rightarrow> ('u, 'o) Stats \<Rightarrow> ('u, 'o) Stats" where
  "upd_throttling f stats = stats\<lparr>CpuStats := (CpuStats stats)\<lparr>ThrottlingData := f (ThrottlingData (CpuStats stats))\<rparr>\<rparr>"

text \<open>
  The loop of \<open>GetStats\<close> over the lines the scanner yields. \<open>parse\<close> is
  \<open>getCgroupParamKeyValue\<close>, defined outside cpu.go. The stats record is assigned in
  place, line by line.
\<close>

fun GetStats_loop :: "(string \<Rightarrow> error + string \<times> 64 word) \<Rightarrow> string list \<Rightarrow> ('u, 'o) Stats \<Rightarrow> error option \<times> ('u, 'o) Stats" where
  "GetStats_loop parse [] stats = (None, stats)"
| "GetStats_loop parse (l # ls) stats =
     (case parse l of
        Inl err \<Rightarrow> (Some err, stats)
      | Inr (t, v) \<Rightarrow>
          GetStats_loop parse ls
            (if t = ''nr_periods'' then upd_throttling (\<lambda>d. d\<lparr>Periods := v\<rparr>) stats
             else if t = ''nr_throttled'' then upd_throttling (\<lambda>d. d\<lparr>ThrottledPeriods := v\<rparr>) stats
             else if t = ''throttled_time'' then upd_throttling (\<lambda>d. d\<lparr>ThrottledTime := v\<rparr>) stats
             else stats))"

text \<open>
  \<open>GetStats\<close>. \<open>open_lines dir name\<close> stands for \<open>os.Open(filepath.Join(dir, name))\<close>
  followed by the scanner: an error of \<open>os.Open\<close>, or the lines the scanner yields.
\<close>

definition GetStats :: "(string \<Rightarrow> string \<Rightarrow> error + string list) \<Rightarrow> (string \<Rightarrow> error + string \<times> 64 word) \<Rightarrow> string \<Rightarrow> ('u, 'o) Stats \<Rightarrow> error option \<times> ('u, 'o) Stats" where
  "GetStats open_lines parse dir stats =
     (case open_lines dir ''cpu.stat'' of
        Inl err \<Rightarrow> (if IsNotExist err then (None, stats) else (Some err, stats))
      | Inr ls \<Rightarrow> GetStats_loop parse ls stats)"

subsection \<open>The key-value parser\<close>

text \<open>
  Modelled from the spec: \<open>getCgroupParamKeyValue\<close> is defined outside cpu.go. A stats
  line is a whitespace-separated key and value; the value is an unsigned 64-bit decimal
  number. Anything else is a parse error.
\<close>

definition is_space :: "char \<Rightarrow> bool" where
  "is_space c = (c = CHR '' '' \<or> c = CHR 0x09 \<or> c = CHR 0x0A \<or> c = CHR 0x0B \<or> c = CHR 0x0C \<or> c = CHR 0x0D)"

fun fields_from :: "string \<Rightarrow> string \<Rightarrow> string list" where
  "fields_from cur [] = (if cur = [] then [] else [cur])"
| "fields_from cur (c # cs) =
     (if is_space c then (if cur = [] then fields_from [] cs else cur # fields_from [] cs)
      else fields_from (cur @ [c]) cs)"

definition Fields :: "string \<Rightarrow> string list" where
  "Fields s = fields_from [] s"

definition is_digit :: "char \<Rightarrow> bool" where
  "is_digit c = ((48::nat) \<le> of_char c \<and> of_char c \<le> (57::nat))"

definition parseUint :: "string \<Rightarrow> error + 64 word" where
  "parseUint s =
     (if s = [] then Inl (ErrOther ''invalid syntax'')
      else if list_all is_digit s
      then (let n = foldl (\<lambda>a c. 10 * a + (of_char c - (48::nat))) (0::nat) s
            in if n < 2 ^ 64 then Inr (of_nat n) else Inl (ErrOther ''value out of range''))
      else Inl (ErrOther ''invalid syntax''))"

definition getCgroupParamKeyValue :: "string \<Rightarrow> error + string \<times> 64 word" where
  "getCgroupParamKeyValue t =
     (case Fields t of
        [k, s] \<Rightarrow> (case parseUint s of Inl err \<Rightarrow> Inl err | Inr v \<Rightarrow> Inr (k, v))
      | _ \<Rightarrow> Inl (ErrOther ''line is not in key value format''))"

subsection \<open>Reading the log and the parsed lines\<close>

text \<open>The writes of one control file among some events, in order.\<close>

fun is_write_of :: "string \<Rightarrow> event \<Rightarrow> bool" where
  "is_write_of file (WriteFile dir f data, r) = (f = file)"
| "is_write_of file (MkdirAll dir perm, r) = False"
| "is_write_of file (WriteCgroupProc dir n, r) = False"

definition writes_of :: "string \<Rightarrow> event list \<Rightarrow> event list" where
  "writes_of file evs = filter (is_write_of file) evs"

fun is_attach :: "event \<Rightarrow> bool" where
  "is_attach (WriteCgroupProc dir n, r) = True"
| "is_attach (MkdirAll dir perm, r) = False"
| "is_attach (WriteFile dir f data, r) = False"

text \<open>
  The spec's reading of a parsed stats file: a counter takes the value of the last line
  that has its key, and keeps its old value when no line has.
\<close>

fun last_value :: "string \<Rightarrow> (string \<times> 64 word) list \<Rightarrow> 64 word \<Rightarrow> 64 word" where
  "last_value key [] old = old"
| "last_value key ((t, v) # kvs) old = last_value key kvs (if t = key then v else old)"

definition recognized :: "string \<times> 64 word \<Rightarrow> bool" where
  "recognized kv = (fst kv = ''nr_periods'' \<or> fst kv = ''nr_throttled'' \<or> fst kv = ''throttled_time'')"

text \<open>The five writes of a configuration, and the events of real-time settings that succeed.\<close>

definition shares_write :: "string \<Rightarrow> Cgroup \<Rightarrow> call" where
  "shares_write dir cgroup = WriteFile dir ''cpu.shares'' (FormatUint (CpuShares (Resources cgroup)))"

definition period_write :: "string \<Rightarrow> Cgroup \<Rightarrow> call" where
  "period_write dir cgroup = WriteFile dir ''cpu.cfs_period_us'' (FormatUint (CpuPeriod (Resources cgroup)))"

definition quota_write :: "string \<Rightarrow> Cgroup \<Rightarrow> call" where
  "quota_write dir cgroup = WriteFile dir ''cpu.cfs_quota_us'' (FormatInt (CpuQuota (Resources cgroup)))"

definition rt_period_write :: "string \<Rightarrow> Cgroup \<Rightarrow> call" where
  "rt_period_write dir cgroup = WriteFile dir ''cpu.rt_period_us'' (FormatUint (CpuRtPeriod (Resources cgroup)))"

definition rt_runtime_write :: "string \<Rightarrow> Cgroup \<Rightarrow> call" where
  "rt_runtime_write dir cgroup = WriteFile dir ''cpu.rt_runtime_us'' (FormatInt (CpuRtRuntime (Resources cgroup)))"

definition rt_ok_events :: "string \<Rightarrow> Cgroup \<Rightarrow> event list" where
  "rt_ok_events dir cgroup =
     (if CpuRtPeriod (Resources cgroup) \<noteq> 0 then [(rt_period_write dir cgroup, None)] else []) @
     (if CpuRtRuntime (Resources cgroup) \<noteq> 0 then [(rt_runtime_write dir cgroup, None)] else [])"

text \<open>
  One guarded write as the events it appends: none when the guard is false, else the
  call with the kernel's answer. \<open>failure\<close> is the error of such a stage, if any.
\<close>

definition attempt :: "kernel \<Rightarrow> bool \<Rightarrow> call \<Rightarrow> event list \<Rightarrow> event list" where
  "attempt K b c h = (if b then [(c, K h c)] else [])"

definition failure :: "event list \<Rightarrow> error option" where
  "failure evs = (case evs of [] \<Rightarrow> None | ev # _ \<Rightarrow> snd ev)"

text \<open>The log after the shares stage, the first period stage and the quota stage of \<open>Set\<close>.\<close>

abbreviation after_shares :: "kernel \<Rightarrow> string \<Rightarrow> Cgroup \<Rightarrow> event list \<Rightarrow> event list" where
  "after_shares K dir cgroup h \<equiv>
     h @ attempt K (CpuShares (Resources cgroup) \<noteq> 0) (shares_write dir cgroup) h"

abbreviation after_period :: "kernel \<Rightarrow> string \<Rightarrow> Cgroup \<Rightarrow> event list \<Rightarrow> event list" where
  "after_period K dir cgroup h \<equiv>
     after_shares K dir cgroup h @
     attempt K (CpuPeriod (Resources cgroup) \<noteq> 0) (period_write dir cgroup) (after_shares K dir cgroup h)"

abbreviation after_quota :: "kernel \<Rightarrow> string \<Rightarrow> Cgroup \<Rightarrow> event list \<Rightarrow> event list" where
  "after_quota K dir cgroup h \<equiv>
     after_period K dir cgroup h @
     attempt K (CpuQuota (Resources cgroup) \<noteq> 0) (quota_write dir cgroup) (after_period K dir cgroup h)"

subsection \<open>Concrete kernels, configurations and files\<close>

text \<open>A kernel that accepts every call, and one that rejects every write of one file.\<close>

definition accepting :: kernel where
  "accepting h c = None"

definition rejecting :: "string \<Rightarrow> error \<Rightarrow> kernel" where
  "rejecting file e h c =
     (case c of WriteFile dir f data \<Rightarrow> (if f = file then Some e else None)
              | MkdirAll dir perm \<Rightarrow> None
              | WriteCgroupProc dir n \<Rightarrow> None)"

text \<open>
  A kernel that rejects a period until a quota has been written, as a parent's
  quota/period ratio can; \<open>rt_less\<close> in addition rejects every real-time period.
\<close>

definition period_after_quota :: kernel where
  "period_after_quota h c =
     (case c of WriteFile dir f data \<Rightarrow>
                  (if f = ''cpu.cfs_period_us'' \<and> writes_of ''cpu.cfs_quota_us'' h = []
                   then Some (ErrOther ''invalid argument'') else None)
              | MkdirAll dir perm \<Rightarrow> None
              | WriteCgroupProc dir n \<Rightarrow> None)"

definition rt_less :: kernel where
  "rt_less h c =
     (case c of WriteFile dir f data \<Rightarrow>
                  (if f = ''cpu.rt_period_us'' then Some (ErrOther ''operation not permitted'')
                   else period_after_quota h c)
              | MkdirAll dir perm \<Rightarrow> None
              | WriteCgroupProc dir n \<Rightarrow> None)"

definition cg_full :: Cgroup where
  "cg_full = \<lparr>Resources = \<lparr>CpuShares = 1024, CpuPeriod = 100000, CpuQuota = 50000,
                             CpuRtPeriod = 1000000, CpuRtRuntime = 950000\<rparr>\<rparr>"

definition cg_cfs :: Cgroup where
  "cg_cfs = \<lparr>Resources = \<lparr>CpuShares = 1024, CpuPeriod = 100000, CpuQuota = 50000,
                            CpuRtPeriod = 0, CpuRtRuntime = 0\<rparr>\<rparr>"

definition cg_period :: Cgroup where
  "cg_period = \<lparr>Resources = \<lparr>CpuShares = 0, CpuPeriod = 100000, CpuQuota = 0,
                               CpuRtPeriod = 0, CpuRtRuntime = 0\<rparr>\<rparr>"

definition cg_runtime :: Cgroup where
  "cg_runtime = \<lparr>Resources = \<lparr>CpuShares = 0, CpuPeriod = 0, CpuQuota = 0,
                                CpuRtPeriod = 0, CpuRtRuntime = 950000\<rparr>\<rparr>"

definition cg_zero :: Cgroup where
  "cg_zero = \<lparr>Resources = \<lparr>CpuShares = 0, CpuPeriod = 0, CpuQuota = 0,
                             CpuRtPeriod = 0, CpuRtRuntime = 0\<rparr>\<rparr>"

text \<open>
  Receivers of \<open>Apply\<close>: a mounted cpu subsystem, no cpu subsystem mounted, a resolution
  that yields the empty path, and a resolution that fails otherwise.
\<close>

definition d_mounted :: cgroupData where
  "d_mounted = \<lparr>path = (\<lambda>subsystem. (''/sys/fs/cgroup/cpu/c1'', None)), config = cg_full, pid = 42\<rparr>"

definition d_unmounted :: cgroupData where
  "d_unmounted = \<lparr>path = (\<lambda>subsystem. ('''', Some (NotFoundError subsystem))), config = cg_full, pid = 42\<rparr>"

definition d_empty :: cgroupData where
  "d_empty = \<lparr>path = (\<lambda>subsystem. ('''', None)), config = cg_full, pid = 42\<rparr>"

definition d_broken :: cgroupData where
  "d_broken = \<lparr>path = (\<lambda>subsystem. ('''', Some (ErrOther ''permission denied''))), config = cg_full, pid = 42\<rparr>"

subsection \<open>Reading a parsed stats file, and concrete files\<close>

text \<open>
  The spec's mapping of keys to counters: \<open>nr_periods\<close> to \<open>Periods\<close>, \<open>nr_throttled\<close>
  to \<open>ThrottledPeriods\<close>, \<open>throttled_time\<close> to \<open>ThrottledTime\<close>.
\<close>

definition read_counters :: "(string \<times> 64 word) list \<Rightarrow> ThrottlingData \<Rightarrow> ThrottlingData" where
  "read_counters kvs d =
     d\<lparr>Periods := last_value ''nr_periods'' kvs (Periods d),
       ThrottledPeriods := last_value ''nr_throttled'' kvs (ThrottledPeriods d),
       ThrottledTime := last_value ''throttled_time'' kvs (ThrottledTime d)\<rparr>"

definition stats0 :: "(unit, unit) Stats" where
  "stats0 = \<lparr>CpuStats = \<lparr>CpuUsage = (),
                ThrottlingData = \<lparr>Periods = 0, ThrottledPeriods = 0, ThrottledTime = 0\<rparr>\<rparr>,
              OtherStats = ()\<rparr>"

definition stat_file :: "string list \<Rightarrow> string \<Rightarrow> string \<Rightarrow> error + string list" where
  "stat_file ls dir name = (if name = ''cpu.stat'' then Inr ls else Inl (ErrNotExist name))"

definition no_file :: "string \<Rightarrow> string \<Rightarrow> error + string list" where
  "no_file dir name = Inl (ErrNotExist name)"

definition unreadable :: "string \<Rightarrow> string \<Rightarrow> error + string list" where
  "unreadable dir name = Inl (ErrOther ''permission denied'')"

section \<open>Properties\<close>

subsection \<open>The methods as sequences of stages\<close>

lemmas call_defs =
  shares_write_def period_write_def quota_write_def rt_period_write_def rt_runtime_write_def

lemma SetRtSched_stages:
  "SetRtSched K dir cg h =
    (let e1 = attempt K (CpuRtPeriod (Resources cg) \<noteq> 0) (rt_period_write dir cg) h;
         e2 = attempt K (CpuRtRuntime (Resources cg) \<noteq> 0) (rt_runtime_write dir cg) (h @ e1)
     in if failure e1 \<noteq> None then (failure e1, h @ e1)
        else (failure e2, h @ e1 @ e2))"
  apply (cases "CpuRtPeriod (Resources cg) = 0"; cases "K h (rt_period_write dir cg)";
         cases "CpuRtRuntime (Resources cg) = 0";
         cases "K (h @ attempt K (CpuRtPeriod (Resources cg) \<noteq> 0) (rt_period_write dir cg) h)
                  (rt_runtime_write dir cg)")
  apply (simp_all add: Let_def attempt_def failure_def SetRtSched_def writeFile_def perform_def call_defs)
  done

lemma Set_stages:
  "Set K dir cg h =
    (let e1 = attempt K (CpuShares (Resources cg) \<noteq> 0) (shares_write dir cg) h;
         e2 = attempt K (CpuPeriod (Resources cg) \<noteq> 0) (period_write dir cg) (h @ e1);
         e3 = attempt K (CpuQuota (Resources cg) \<noteq> 0) (quota_write dir cg) (h @ e1 @ e2);
         e4 = attempt K (failure e2 \<noteq> None) (period_write dir cg) (h @ e1 @ e2 @ e3)
     in if failure e1 \<noteq> None then (failure e1, h @ e1)
        else if failure e3 \<noteq> None then (failure e3, h @ e1 @ e2 @ e3)
        else if failure e4 \<noteq> None then (failure e4, h @ e1 @ e2 @ e3 @ e4)
        else SetRtSched K dir cg (h @ e1 @ e2 @ e3 @ e4))"
  apply (cases "CpuShares (Resources cg) = 0"; cases "K h (shares_write dir cg)";
         cases "CpuPeriod (Resources cg) = 0";
         cases "K (after_shares K dir cg h) (period_write dir cg)";
         cases "CpuQuota (Resources cg) = 0";
         cases "K (after_period K dir cg h) (quota_write dir cg)";
         cases "K (after_quota K dir cg h) (period_write dir cg)")
  apply (simp_all add: Let_def attempt_def failure_def Set_def writeFile_def perform_def call_defs)
  done

lemma SetRtSched_snd: "snd (SetRtSched K dir cg h) = h @ performed (SetRtSched K dir cg) h"
  by (simp add: performed_def SetRtSched_stages Let_def)

lemma SetRtSched_performed:
  "performed (SetRtSched K dir cg) h =
    (let e1 = attempt K (CpuRtPeriod (Resources cg) \<noteq> 0) (rt_period_write dir cg) h;
         e2 = attempt K (CpuRtRuntime (Resources cg) \<noteq> 0) (rt_runtime_write dir cg) (h @ e1)
     in if failure e1 \<noteq> None then e1 else e1 @ e2)"
  by (simp add: performed_def SetRtSched_stages Let_def)

lemma Set_performed:
  "performed (Set K dir cg) h =
    (let e1 = attempt K (CpuShares (Resources cg) \<noteq> 0) (shares_write dir cg) h;
         e2 = attempt K (CpuPeriod (Resources cg) \<noteq> 0) (period_write dir cg) (h @ e1);
         e3 = attempt K (CpuQuota (Resources cg) \<noteq> 0) (quota_write dir cg) (h @ e1 @ e2);
         e4 = attempt K (failure e2 \<noteq> None) (period_write dir cg) (h @ e1 @ e2 @ e3)
     in if failure e1 \<noteq> None then e1
        else if failure e3 \<noteq> None then e1 @ e2 @ e3
        else if failure e4 \<noteq> None then e1 @ e2 @ e3 @ e4
        else e1 @ e2 @ e3 @ e4 @ performed (SetRtSched K dir cg) (h @ e1 @ e2 @ e3 @ e4))"
  by (simp add: performed_def [of "Set K dir cg"] Set_stages Let_def SetRtSched_snd)

lemma SetRtSched_success_iff:
  "fst (SetRtSched K dir cg h) = None \<longleftrightarrow> snd (SetRtSched K dir cg h) = h @ rt_ok_events dir cg"
  apply (cases "CpuRtPeriod (Resources cg) = 0"; cases "K h (rt_period_write dir cg)";
         cases "CpuRtRuntime (Resources cg) = 0";
         cases "K (h @ attempt K (CpuRtPeriod (Resources cg) \<noteq> 0) (rt_period_write dir cg) h)
                  (rt_runtime_write dir cg)")
  apply (simp_all add: SetRtSched_stages Let_def attempt_def failure_def rt_ok_events_def)
  done


subsection \<open>Writes of one file among the events of a stage\<close>

lemma writes_of_Nil: "writes_of f [] = []"
  by (simp add: writes_of_def)

lemma writes_of_Cons:
  "writes_of f ((WriteFile dir f' d, r) # evs) =
     (if f' = f then (WriteFile dir f' d, r) # writes_of f evs else writes_of f evs)"
  by (simp add: writes_of_def)

lemma writes_of_append: "writes_of f (xs @ ys) = writes_of f xs @ writes_of f ys"
  by (simp add: writes_of_def)

lemma writes_of_attempt:
  "writes_of f (attempt K b (WriteFile dir f' d) h) =
     (if b \<and> f' = f then [(WriteFile dir f' d, K h (WriteFile dir f' d))] else [])"
  by (simp add: attempt_def writes_of_def)

lemma writes_of_SetRtSched:
  "f \<noteq> ''cpu.rt_period_us'' \<Longrightarrow> f \<noteq> ''cpu.rt_runtime_us'' \<Longrightarrow>
   writes_of f (performed (SetRtSched K dir cg) h) = []"
  by (simp add: SetRtSched_performed Let_def call_defs writes_of_append writes_of_attempt)

lemma period_writes_of_SetRtSched:
  "writes_of ''cpu.cfs_period_us'' (performed (SetRtSched K dir cg) h) = []"
  by (simp add: writes_of_SetRtSched)

subsection \<open>SetRtSched\<close>

text \<open>
  C9. \<open>SetRtSched\<close> writes the rt-period parameter when \<open>CpuRtPeriod\<close> is nonzero and
  the rt-runtime parameter when \<open>CpuRtRuntime\<close> is nonzero. A rejected rt-period write
  is returned at once, with no rt-runtime write after it; a rejected rt-runtime write is
  returned; and the result is success exactly when the log has grown by one accepted
  write for every nonzero real-time field, rt-period first. When the kernel accepts
  every write that is made, that is what happens: every nonzero field is written and
  success returned. With a nonzero \<open>CpuRtPeriod\<close> the first event is always the
  rt-period write; with a nonzero \<open>CpuRtRuntime\<close> and no rejected rt-period write the
  last event is the rt-runtime write, and its answer is the result.
\<close>

theorem SetRtSched_writes_or_fails:
  "(CpuRtPeriod (Resources cg) \<noteq> 0 \<and> K h (rt_period_write dir cg) = Some e \<longrightarrow>
      SetRtSched K dir cg h = (Some e, h @ [(rt_period_write dir cg, Some e)])) \<and>
   (CpuRtPeriod (Resources cg) = 0 \<and> CpuRtRuntime (Resources cg) \<noteq> 0 \<and>
      K h (rt_runtime_write dir cg) = Some e \<longrightarrow>
      SetRtSched K dir cg h = (Some e, h @ [(rt_runtime_write dir cg, Some e)])) \<and>
   (CpuRtPeriod (Resources cg) \<noteq> 0 \<and> K h (rt_period_write dir cg) = None \<and>
      CpuRtRuntime (Resources cg) \<noteq> 0 \<and>
      K (h @ [(rt_period_write dir cg, None)]) (rt_runtime_write dir cg) = Some e \<longrightarrow>
      SetRtSched K dir cg h =
        (Some e, h @ [(rt_period_write dir cg, None), (rt_runtime_write dir cg, Some e)])) \<and>
   (fst (SetRtSched K dir cg h) = None \<longleftrightarrow>
      snd (SetRtSched K dir cg h) = h @ rt_ok_events dir cg) \<and>
   ((CpuRtPeriod (Resources cg) \<noteq> 0 \<longrightarrow> K h (rt_period_write dir cg) = None) \<and>
    (CpuRtRuntime (Resources cg) \<noteq> 0 \<longrightarrow>
       K (h @ (if CpuRtPeriod (Resources cg) \<noteq> 0 then [(rt_period_write dir cg, None)] else []))
         (rt_runtime_write dir cg) = None) \<longrightarrow>
      SetRtSched K dir cg h = (None, h @ rt_ok_events dir cg)) \<and>
   (CpuRtPeriod (Resources cg) \<noteq> 0 \<longrightarrow>
      take 1 (performed (SetRtSched K dir cg) h) =
        [(rt_period_write dir cg, K h (rt_period_write dir cg))]) \<and>
   (CpuRtRuntime (Resources cg) \<noteq> 0 \<and>
    (CpuRtPeriod (Resources cg) \<noteq> 0 \<longrightarrow> K h (rt_period_write dir cg) = None) \<and>
    h1 = h @ (if CpuRtPeriod (Resources cg) \<noteq> 0 then [(rt_period_write dir cg, None)] else []) \<longrightarrow>
      SetRtSched K dir cg h =
        (K h1 (rt_runtime_write dir cg),
         h1 @ [(rt_runtime_write dir cg, K h1 (rt_runtime_write dir cg))]))"
proof (intro conjI impI)
  assume "CpuRtPeriod (Resources cg) \<noteq> 0 \<and> K h (rt_period_write dir cg) = Some e"
  then show "SetRtSched K dir cg h = (Some e, h @ [(rt_period_write dir cg, Some e)])"
    by (simp add: SetRtSched_stages Let_def attempt_def failure_def)
next
  assume "CpuRtPeriod (Resources cg) = 0 \<and> CpuRtRuntime (Resources cg) \<noteq> 0 \<and>
      K h (rt_runtime_write dir cg) = Some e"
  then show "SetRtSched K dir cg h = (Some e, h @ [(rt_runtime_write dir cg, Some e)])"
    by (simp add: SetRtSched_stages Let_def attempt_def failure_def)
next
  assume "CpuRtPeriod (Resources cg) \<noteq> 0 \<and> K h (rt_period_write dir cg) = None \<and>
      CpuRtRuntime (Resources cg) \<noteq> 0 \<and>
      K (h @ [(rt_period_write dir cg, None)]) (rt_runtime_write dir cg) = Some e"
  then show "SetRtSched K dir cg h =
        (Some e, h @ [(rt_period_write dir cg, None), (rt_runtime_write dir cg, Some e)])"
    by (simp add: SetRtSched_stages Let_def attempt_def failure_def)
next
  show "fst (SetRtSched K dir cg h) = None \<longleftrightarrow>
      snd (SetRtSched K dir cg h) = h @ rt_ok_events dir cg"
    by (rule SetRtSched_success_iff)
next
  assume "(CpuRtPeriod (Resources cg) \<noteq> 0 \<longrightarrow> K h (rt_period_write dir cg) = None) \<and>
    (CpuRtRuntime (Resources cg) \<noteq> 0 \<longrightarrow>
       K (h @ (if CpuRtPeriod (Resources cg) \<noteq> 0 then [(rt_period_write dir cg, None)] else []))
         (rt_runtime_write dir cg) = None)"
  then show "SetRtSched K dir cg h = (None, h @ rt_ok_events dir cg)"
    by (cases "CpuRtPeriod (Resources cg) = 0"; cases "CpuRtRuntime (Resources cg) = 0")
       (simp_all add: SetRtSched_stages Let_def attempt_def failure_def rt_ok_events_def)
next
  assume "CpuRtPeriod (Resources cg) \<noteq> 0"
  then show "take 1 (performed (SetRtSched K dir cg) h) =
        [(rt_period_write dir cg, K h (rt_period_write dir cg))]"
    by (cases "K h (rt_period_write dir cg)")
       (simp_all add: SetRtSched_performed Let_def attempt_def failure_def)
next
  assume "CpuRtRuntime (Resources cg) \<noteq> 0 \<and>
    (CpuRtPeriod (Resources cg) \<noteq> 0 \<longrightarrow> K h (rt_period_write dir cg) = None) \<and>
    h1 = h @ (if CpuRtPeriod (Resources cg) \<noteq> 0 then [(rt_period_write dir cg, None)] else [])"
  then show "SetRtSched K dir cg h =
        (K h1 (rt_runtime_write dir cg),
         h1 @ [(rt_runtime_write dir cg, K h1 (rt_runtime_write dir cg))])"
    by (cases "CpuRtPeriod (Resources cg) = 0")
       (simp_all add: SetRtSched_stages Let_def attempt_def failure_def)
qed

theorem SetRtSched_writes_or_fails_witness:
  "SetRtSched (rejecting ''cpu.rt_period_us'' (ErrOther ''invalid argument'')) ''/cg'' cg_full [] =
     (Some (ErrOther ''invalid argument''),
      [(rt_period_write ''/cg'' cg_full, Some (ErrOther ''invalid argument''))]) \<and>
   SetRtSched (rejecting ''cpu.rt_runtime_us'' (ErrOther ''invalid argument'')) ''/cg'' cg_runtime [] =
     (Some (ErrOther ''invalid argument''),
      [(rt_runtime_write ''/cg'' cg_runtime, Some (ErrOther ''invalid argument''))]) \<and>
   SetRtSched (rejecting ''cpu.rt_runtime_us'' (ErrOther ''invalid argument'')) ''/cg'' cg_full [] =
     (Some (ErrOther ''invalid argument''),
      [(rt_period_write ''/cg'' cg_full, None),
       (rt_runtime_write ''/cg'' cg_full, Some (ErrOther ''invalid argument''))]) \<and>
   CpuRtPeriod (Resources cg_full) \<noteq> 0 \<and> CpuRtRuntime (Resources cg_full) \<noteq> 0 \<and>
   accepting [] (rt_period_write ''/cg'' cg_full) = None \<and>
   accepting [(rt_period_write ''/cg'' cg_full, None)] (rt_runtime_write ''/cg'' cg_full) = None \<and>
   SetRtSched accepting ''/cg'' cg_full [] =
     (None, [(rt_period_write ''/cg'' cg_full, None), (rt_runtime_write ''/cg'' cg_full, None)]) \<and>
   take 1 (performed (SetRtSched accepting ''/cg'' cg_full) []) =
     [(rt_period_write ''/cg'' cg_full, None)]"
proof -
  let ?e = "ErrOther ''invalid argument''"
  let ?Kp = "rejecting ''cpu.rt_period_us'' ?e"
  let ?Kr = "rejecting ''cpu.rt_runtime_us'' ?e"
  have full: "CpuRtPeriod (Resources cg_full) \<noteq> 0" "CpuRtRuntime (Resources cg_full) \<noteq> 0"
    by (simp_all add: cg_full_def)
  have runtime: "CpuRtPeriod (Resources cg_runtime) = 0" "CpuRtRuntime (Resources cg_runtime) \<noteq> 0"
    by (simp_all add: cg_runtime_def)
  have kp: "?Kp [] (rt_period_write ''/cg'' cg_full) = Some ?e"
    by (simp add: rejecting_def call_defs)
  have kr0: "?Kr [] (rt_runtime_write ''/cg'' cg_runtime) = Some ?e"
    by (simp add: rejecting_def call_defs)
  have kr1: "?Kr [] (rt_period_write ''/cg'' cg_full) = None"
    "?Kr [(rt_period_write ''/cg'' cg_full, None)] (rt_runtime_write ''/cg'' cg_full) = Some ?e"
    by (simp_all add: rejecting_def call_defs)
  have ka: "accepting [] (rt_period_write ''/cg'' cg_full) = None"
    "accepting [(rt_period_write ''/cg'' cg_full, None)] (rt_runtime_write ''/cg'' cg_full) = None"
    by (simp_all add: accepting_def)
  have ok: "rt_ok_events ''/cg'' cg_full =
      [(rt_period_write ''/cg'' cg_full, None), (rt_runtime_write ''/cg'' cg_full, None)]"
    by (simp add: rt_ok_events_def full)
  from full kp SetRtSched_writes_or_fails [of cg_full ?Kp "[]" "''/cg''" ?e]
  have r1: "SetRtSched ?Kp ''/cg'' cg_full [] = (Some ?e, [(rt_period_write ''/cg'' cg_full, Some ?e)])"
    by simp
  from runtime kr0 SetRtSched_writes_or_fails [of cg_runtime ?Kr "[]" "''/cg''" ?e]
  have r2: "SetRtSched ?Kr ''/cg'' cg_runtime [] = (Some ?e, [(rt_runtime_write ''/cg'' cg_runtime, Some ?e)])"
    by simp
  from full kr1 SetRtSched_writes_or_fails [of cg_full ?Kr "[]" "''/cg''" ?e]
  have r3: "SetRtSched ?Kr ''/cg'' cg_full [] =
      (Some ?e, [(rt_period_write ''/cg'' cg_full, None), (rt_runtime_write ''/cg'' cg_full, Some ?e)])"
    by simp
  note acc = SetRtSched_writes_or_fails [of cg_full accepting "[]" "''/cg''" ?e "[(rt_period_write ''/cg'' cg_full, None)]"]
  from full ka ok acc
  have r4: "SetRtSched accepting ''/cg'' cg_full [] =
      (None, [(rt_period_write ''/cg'' cg_full, None), (rt_runtime_write ''/cg'' cg_full, None)])"
    by simp
  from full ka acc
  have r5: "take 1 (performed (SetRtSched accepting ''/cg'' cg_full) []) =
      [(rt_period_write ''/cg'' cg_full, None)]"
    by simp
  show ?thesis
    by (intro conjI r1 r2 r3 full ka r4 r5)
qed


subsection \<open>Set: the period, quota, period sequence\<close>

lemma Set_period_outcomes:
  assumes "CpuPeriod (Resources cg) \<noteq> 0"
  shows "map snd (writes_of ''cpu.cfs_period_us'' (performed (Set K dir cg) h)) =
    (let a1 = failure (attempt K (CpuShares (Resources cg) \<noteq> 0) (shares_write dir cg) h);
         a2 = K (after_shares K dir cg h) (period_write dir cg);
         a3 = failure (attempt K (CpuQuota (Resources cg) \<noteq> 0) (quota_write dir cg) (after_period K dir cg h));
         a4 = K (after_quota K dir cg h) (period_write dir cg)
     in if a1 \<noteq> None then []
        else if a3 \<noteq> None \<or> a2 = None then [a2]
        else [a2, a4])"
  using assms
  apply (cases "CpuShares (Resources cg) = 0"; cases "K h (shares_write dir cg)";
         cases "K (after_shares K dir cg h) (period_write dir cg)";
         cases "CpuQuota (Resources cg) = 0";
         cases "K (after_period K dir cg h) (quota_write dir cg)";
         cases "K (after_quota K dir cg h) (period_write dir cg)")
  apply (simp_all add: Set_performed Let_def attempt_def failure_def writes_of_def call_defs
        period_writes_of_SetRtSched [unfolded writes_of_def])
  done


lemma Set_reorder_trace:
  assumes "CpuShares (Resources cg) \<noteq> 0"
    and "CpuPeriod (Resources cg) \<noteq> 0"
    and "CpuQuota (Resources cg) \<noteq> 0"
    and "map snd (writes_of ''cpu.cfs_period_us'' (performed (Set K dir cg) h)) = Some e # None # rest"
  shows "rest = [] \<and>
    Set K dir cg h =
      SetRtSched K dir cg
        (h @ [(shares_write dir cg, None), (period_write dir cg, Some e),
              (quota_write dir cg, None), (period_write dir cg, None)])"
proof -
  have answers: "rest = [] \<and> K h (shares_write dir cg) = None \<and>
      K (h @ [(shares_write dir cg, None)]) (period_write dir cg) = Some e \<and>
      K (h @ [(shares_write dir cg, None), (period_write dir cg, Some e)]) (quota_write dir cg) = None \<and>
      K (h @ [(shares_write dir cg, None), (period_write dir cg, Some e), (quota_write dir cg, None)])
        (period_write dir cg) = None"
    using assms
    apply (cases "K h (shares_write dir cg)";
           cases "K (after_shares K dir cg h) (period_write dir cg)";
           cases "K (after_period K dir cg h) (quota_write dir cg)";
           cases "K (after_quota K dir cg h) (period_write dir cg)")
    apply (simp_all add: Set_period_outcomes Let_def attempt_def failure_def)
    done
  with assms(1-3) have "Set K dir cg h =
      SetRtSched K dir cg
        (h @ [(shares_write dir cg, None), (period_write dir cg, Some e),
              (quota_write dir cg, None), (period_write dir cg, None)])"
    by (simp add: Set_stages Let_def attempt_def failure_def)
  with answers show ?thesis by simp
qed

lemma Set_reorder_run:
  assumes "CpuShares (Resources cg) \<noteq> 0"
    and "CpuPeriod (Resources cg) \<noteq> 0"
    and "CpuQuota (Resources cg) \<noteq> 0"
    and "K h (shares_write dir cg) = None"
    and "K (h @ [(shares_write dir cg, None)]) (period_write dir cg) = Some e"
    and "K (h @ [(shares_write dir cg, None), (period_write dir cg, Some e)]) (quota_write dir cg) = None"
    and "K (h @ [(shares_write dir cg, None), (period_write dir cg, Some e), (quota_write dir cg, None)])
           (period_write dir cg) = None"
  shows "Set K dir cg h =
      SetRtSched K dir cg
        (h @ [(shares_write dir cg, None), (period_write dir cg, Some e),
              (quota_write dir cg, None), (period_write dir cg, None)])"
  using assms by (simp add: Set_stages Let_def attempt_def failure_def)

text \<open>
  C1 (as amended). For a configuration with nonzero shares, period and quota: when the
  first write of the period parameter is rejected and the second accepted, \<open>Set\<close> has
  written shares, tried the period (rejected, the error not returned), written the quota
  and written the period again (accepted), in this order; the period parameter is
  written exactly twice; \<open>Set\<close> then runs \<open>SetRtSched\<close> on that log and returns its
  result, so that it returns success exactly when every real-time write is accepted.
  The second conjunct is the same run read from the kernel's answers: when the kernel
  accepts shares, rejects the period, accepts the quota and then accepts the period,
  the retry is made.
\<close>

theorem Set_reorder_sequence:
  "(CpuShares (Resources cg) \<noteq> 0 \<and> CpuPeriod (Resources cg) \<noteq> 0 \<and> CpuQuota (Resources cg) \<noteq> 0 \<and>
    map snd (writes_of ''cpu.cfs_period_us'' (performed (Set K dir cg) h)) = Some e # None # rest \<longrightarrow>
      rest = [] \<and>
      Set K dir cg h =
        SetRtSched K dir cg
          (h @ [(shares_write dir cg, None), (period_write dir cg, Some e),
                (quota_write dir cg, None), (period_write dir cg, None)]) \<and>
      (fst (Set K dir cg h) = None \<longleftrightarrow>
         snd (Set K dir cg h) =
           h @ [(shares_write dir cg, None), (period_write dir cg, Some e),
                (quota_write dir cg, None), (period_write dir cg, None)] @ rt_ok_events dir cg)) \<and>
   (CpuShares (Resources cg) \<noteq> 0 \<and> CpuPeriod (Resources cg) \<noteq> 0 \<and> CpuQuota (Resources cg) \<noteq> 0 \<and>
    K h (shares_write dir cg) = None \<and>
    K (h @ [(shares_write dir cg, None)]) (period_write dir cg) = Some e \<and>
    K (h @ [(shares_write dir cg, None), (period_write dir cg, Some e)]) (quota_write dir cg) = None \<and>
    K (h @ [(shares_write dir cg, None), (period_write dir cg, Some e), (quota_write dir cg, None)])
      (period_write dir cg) = None \<longrightarrow>
      Set K dir cg h =
        SetRtSched K dir cg
          (h @ [(shares_write dir cg, None), (period_write dir cg, Some e),
                (quota_write dir cg, None), (period_write dir cg, None)]))"
proof -
  let ?h4 = "h @ [(shares_write dir cg, None), (period_write dir cg, Some e),
                  (quota_write dir cg, None), (period_write dir cg, None)]"
  have iff: "fst (Set K dir cg h) = None \<longleftrightarrow>
      snd (Set K dir cg h) =
        h @ [(shares_write dir cg, None), (period_write dir cg, Some e),
             (quota_write dir cg, None), (period_write dir cg, None)] @ rt_ok_events dir cg"
    if run: "Set K dir cg h = SetRtSched K dir cg ?h4"
    unfolding run using SetRtSched_success_iff [of K dir cg ?h4] by simp
  have trace: "rest = [] \<and> Set K dir cg h = SetRtSched K dir cg ?h4 \<and>
      (fst (Set K dir cg h) = None \<longleftrightarrow>
       snd (Set K dir cg h) =
         h @ [(shares_write dir cg, None), (period_write dir cg, Some e),
              (quota_write dir cg, None), (period_write dir cg, None)] @ rt_ok_events dir cg)"
    if "CpuShares (Resources cg) \<noteq> 0 \<and> CpuPeriod (Resources cg) \<noteq> 0 \<and> CpuQuota (Resources cg) \<noteq> 0 \<and>
        map snd (writes_of ''cpu.cfs_period_us'' (performed (Set K dir cg) h)) = Some e # None # rest"
  proof -
    from that have tr: "rest = [] \<and> Set K dir cg h = SetRtSched K dir cg ?h4"
      by (intro Set_reorder_trace) simp_all
    then have r: "rest = []" and run: "Set K dir cg h = SetRtSched K dir cg ?h4"
      by (rule conjunct1, rule conjunct2)
    show ?thesis
      by (intro conjI r run iff [OF run])
  qed
  have run: "Set K dir cg h = SetRtSched K dir cg ?h4"
    if "CpuShares (Resources cg) \<noteq> 0 \<and> CpuPeriod (Resources cg) \<noteq> 0 \<and> CpuQuota (Resources cg) \<noteq> 0 \<and>
        K h (shares_write dir cg) = None \<and>
        K (h @ [(shares_write dir cg, None)]) (period_write dir cg) = Some e \<and>
        K (h @ [(shares_write dir cg, None), (period_write dir cg, Some e)]) (quota_write dir cg) = None \<and>
        K (h @ [(shares_write dir cg, None), (period_write dir cg, Some e), (quota_write dir cg, None)])
          (period_write dir cg) = None"
    using that by (intro Set_reorder_run) simp_all
  show ?thesis
  proof (intro conjI impI)
    assume a: "CpuShares (Resources cg) \<noteq> 0 \<and> CpuPeriod (Resources cg) \<noteq> 0 \<and> CpuQuota (Resources cg) \<noteq> 0 \<and>
        map snd (writes_of ''cpu.cfs_period_us'' (performed (Set K dir cg) h)) = Some e # None # rest"
    from trace [OF a] show "rest = []"
      by (rule conjunct1)
    from trace [OF a] show "Set K dir cg h = SetRtSched K dir cg ?h4"
      by (rule conjunct2 [THEN conjunct1])
    from trace [OF a] show "fst (Set K dir cg h) = None \<longleftrightarrow>
        snd (Set K dir cg h) = h @ [(shares_write dir cg, None), (period_write dir cg, Some e),
                (quota_write dir cg, None), (period_write dir cg, None)] @ rt_ok_events dir cg"
      by (rule conjunct2 [THEN conjunct2])
  next
    assume "CpuShares (Resources cg) \<noteq> 0 \<and> CpuPeriod (Resources cg) \<noteq> 0 \<and> CpuQuota (Resources cg) \<noteq> 0 \<and>
        K h (shares_write dir cg) = None \<and>
        K (h @ [(shares_write dir cg, None)]) (period_write dir cg) = Some e \<and>
        K (h @ [(shares_write dir cg, None), (period_write dir cg, Some e)]) (quota_write dir cg) = None \<and>
        K (h @ [(shares_write dir cg, None), (period_write dir cg, Some e), (quota_write dir cg, None)])
          (period_write dir cg) = None"
    then show "Set K dir cg h = SetRtSched K dir cg ?h4" by (rule run)
  qed
qed

lemma Set_rejected_twice_trace:
  assumes "CpuPeriod (Resources cg) \<noteq> 0"
    and "map snd (writes_of ''cpu.cfs_period_us'' (performed (Set K dir cg) h)) = Some e1 # Some e2 # rest"
  shows "rest = [] \<and>
    Set K dir cg h =
      (Some e2,
       h @ (if CpuShares (Resources cg) \<noteq> 0 then [(shares_write dir cg, None)] else []) @
           [(period_write dir cg, Some e1)] @
           (if CpuQuota (Resources cg) \<noteq> 0 then [(quota_write dir cg, None)] else []) @
           [(period_write dir cg, Some e2)])"
  using assms
  apply (cases "CpuShares (Resources cg) = 0"; cases "K h (shares_write dir cg)";
         cases "K (after_shares K dir cg h) (period_write dir cg)";
         cases "CpuQuota (Resources cg) = 0";
         cases "K (after_period K dir cg h) (quota_write dir cg)";
         cases "K (after_quota K dir cg h) (period_write dir cg)")
  apply (simp_all add: Set_period_outcomes Set_stages Let_def attempt_def failure_def)
  done

lemma Set_rejected_twice_run:
  assumes "CpuPeriod (Resources cg) \<noteq> 0"
    and "CpuShares (Resources cg) \<noteq> 0 \<longrightarrow> K h (shares_write dir cg) = None"
    and "h1 = h @ (if CpuShares (Resources cg) \<noteq> 0 then [(shares_write dir cg, None)] else [])"
    and "K h1 (period_write dir cg) = Some e1"
    and "CpuQuota (Resources cg) \<noteq> 0 \<longrightarrow> K (h1 @ [(period_write dir cg, Some e1)]) (quota_write dir cg) = None"
    and "h3 = h1 @ [(period_write dir cg, Some e1)] @
                   (if CpuQuota (Resources cg) \<noteq> 0 then [(quota_write dir cg, None)] else [])"
    and "K h3 (period_write dir cg) = Some e2"
  shows "Set K dir cg h = (Some e2, h3 @ [(period_write dir cg, Some e2)])"
  using assms
  apply (cases "CpuShares (Resources cg) = 0"; cases "CpuQuota (Resources cg) = 0")
  apply (simp_all add: Set_stages Let_def attempt_def failure_def)
  done

text \<open>
  C2. For a configuration with nonzero period: when the period write is rejected at the
  first attempt and at the retry, \<open>Set\<close> returns the error of the retry. Between the two
  attempts the quota has been written once, and accepted, when it is nonzero; when it is
  zero nothing is written between them and the retry is made all the same. No further
  write follows the retry. The second conjunct reads the same run from the kernel's
  answers: once the first period write is rejected and a nonzero quota accepted, the
  retry is made, and its rejection is what \<open>Set\<close> returns.
\<close>

theorem Set_period_rejected_twice:
  "(CpuPeriod (Resources cg) \<noteq> 0 \<and>
    map snd (writes_of ''cpu.cfs_period_us'' (performed (Set K dir cg) h)) = Some e1 # Some e2 # rest \<longrightarrow>
      rest = [] \<and>
      Set K dir cg h =
        (Some e2,
         h @ (if CpuShares (Resources cg) \<noteq> 0 then [(shares_write dir cg, None)] else []) @
             [(period_write dir cg, Some e1)] @
             (if CpuQuota (Resources cg) \<noteq> 0 then [(quota_write dir cg, None)] else []) @
             [(period_write dir cg, Some e2)])) \<and>
   (CpuPeriod (Resources cg) \<noteq> 0 \<and>
    (CpuShares (Resources cg) \<noteq> 0 \<longrightarrow> K h (shares_write dir cg) = None) \<and>
    h1 = h @ (if CpuShares (Resources cg) \<noteq> 0 then [(shares_write dir cg, None)] else []) \<and>
    K h1 (period_write dir cg) = Some e1 \<and>
    (CpuQuota (Resources cg) \<noteq> 0 \<longrightarrow>
       K (h1 @ [(period_write dir cg, Some e1)]) (quota_write dir cg) = None) \<and>
    h3 = h1 @ [(period_write dir cg, Some e1)] @
              (if CpuQuota (Resources cg) \<noteq> 0 then [(quota_write dir cg, None)] else []) \<and>
    K h3 (period_write dir cg) = Some e2 \<longrightarrow>
      Set K dir cg h = (Some e2, h3 @ [(period_write dir cg, Some e2)]))"
proof (intro conjI impI)
  assume a: "CpuPeriod (Resources cg) \<noteq> 0 \<and>
    map snd (writes_of ''cpu.cfs_period_us'' (performed (Set K dir cg) h)) = Some e1 # Some e2 # rest"
  then have both: "rest = [] \<and>
      Set K dir cg h =
        (Some e2,
         h @ (if CpuShares (Resources cg) \<noteq> 0 then [(shares_write dir cg, None)] else []) @
             [(period_write dir cg, Some e1)] @
             (if CpuQuota (Resources cg) \<noteq> 0 then [(quota_write dir cg, None)] else []) @
             [(period_write dir cg, Some e2)])"
    by (intro Set_rejected_twice_trace) simp_all
  from both show "rest = []" ..
  from both show "Set K dir cg h =
        (Some e2,
         h @ (if CpuShares (Resources cg) \<noteq> 0 then [(shares_write dir cg, None)] else []) @
             [(period_write dir cg, Some e1)] @
             (if CpuQuota (Resources cg) \<noteq> 0 then [(quota_write dir cg, None)] else []) @
             [(period_write dir cg, Some e2)])" ..
next
  assume "CpuPeriod (Resources cg) \<noteq> 0 \<and>
    (CpuShares (Resources cg) \<noteq> 0 \<longrightarrow> K h (shares_write dir cg) = None) \<and>
    h1 = h @ (if CpuShares (Resources cg) \<noteq> 0 then [(shares_write dir cg, None)] else []) \<and>
    K h1 (period_write dir cg) = Some e1 \<and>
    (CpuQuota (Resources cg) \<noteq> 0 \<longrightarrow>
       K (h1 @ [(period_write dir cg, Some e1)]) (quota_write dir cg) = None) \<and>
    h3 = h1 @ [(period_write dir cg, Some e1)] @
              (if CpuQuota (Resources cg) \<noteq> 0 then [(quota_write dir cg, None)] else []) \<and>
    K h3 (period_write dir cg) = Some e2"
  then show "Set K dir cg h = (Some e2, h3 @ [(period_write dir cg, Some e2)])"
    by (intro Set_rejected_twice_run [where ?h1.0 = h1 and ?e1.0 = e1]) blast+
qed


lemmas concrete_defs =
  Set_def SetRtSched_def writeFile_def perform_def performed_def writes_of_def call_defs
  accepting_def rejecting_def period_after_quota_def rt_less_def
  cg_full_def cg_cfs_def cg_period_def cg_runtime_def cg_zero_def

theorem Set_reorder_sequence_witness:
  "CpuShares (Resources cg_cfs) \<noteq> 0 \<and> CpuPeriod (Resources cg_cfs) \<noteq> 0 \<and>
   CpuQuota (Resources cg_cfs) \<noteq> 0 \<and>
   map snd (writes_of ''cpu.cfs_period_us'' (performed (Set period_after_quota ''/cg'' cg_cfs) [])) =
     [Some (ErrOther ''invalid argument''), None] \<and>
   period_after_quota [] (shares_write ''/cg'' cg_cfs) = None \<and>
   period_after_quota [(shares_write ''/cg'' cg_cfs, None)] (period_write ''/cg'' cg_cfs) =
     Some (ErrOther ''invalid argument'') \<and>
   period_after_quota
     [(shares_write ''/cg'' cg_cfs, None), (period_write ''/cg'' cg_cfs, Some (ErrOther ''invalid argument''))]
     (quota_write ''/cg'' cg_cfs) = None \<and>
   period_after_quota
     [(shares_write ''/cg'' cg_cfs, None), (period_write ''/cg'' cg_cfs, Some (ErrOther ''invalid argument'')),
      (quota_write ''/cg'' cg_cfs, None)]
     (period_write ''/cg'' cg_cfs) = None \<and>
   Set period_after_quota ''/cg'' cg_cfs [] =
     SetRtSched period_after_quota ''/cg'' cg_cfs
       [(shares_write ''/cg'' cg_cfs, None),
        (period_write ''/cg'' cg_cfs, Some (ErrOther ''invalid argument'')),
        (quota_write ''/cg'' cg_cfs, None), (period_write ''/cg'' cg_cfs, None)] \<and>
   fst (Set period_after_quota ''/cg'' cg_cfs []) = None"
proof -
  have nonzero: "CpuShares (Resources cg_cfs) \<noteq> 0" "CpuPeriod (Resources cg_cfs) \<noteq> 0"
      "CpuQuota (Resources cg_cfs) \<noteq> 0"
    by (simp_all add: cg_cfs_def)
  have outcomes: "map snd (writes_of ''cpu.cfs_period_us'' (performed (Set period_after_quota ''/cg'' cg_cfs) [])) =
     [Some (ErrOther ''invalid argument''), None]"
    by (simp add: concrete_defs)
  have answers: "period_after_quota [] (shares_write ''/cg'' cg_cfs) = None"
    "period_after_quota [(shares_write ''/cg'' cg_cfs, None)] (period_write ''/cg'' cg_cfs) =
       Some (ErrOther ''invalid argument'')"
    "period_after_quota
       [(shares_write ''/cg'' cg_cfs, None), (period_write ''/cg'' cg_cfs, Some (ErrOther ''invalid argument''))]
       (quota_write ''/cg'' cg_cfs) = None"
    "period_after_quota
       [(shares_write ''/cg'' cg_cfs, None), (period_write ''/cg'' cg_cfs, Some (ErrOther ''invalid argument'')),
        (quota_write ''/cg'' cg_cfs, None)]
       (period_write ''/cg'' cg_cfs) = None"
    by (simp_all add: period_after_quota_def call_defs writes_of_def)
  have ok: "fst (Set period_after_quota ''/cg'' cg_cfs []) = None"
    by (simp add: concrete_defs)
  from nonzero outcomes
    Set_reorder_sequence [of cg_cfs period_after_quota "''/cg''" "[]" "ErrOther ''invalid argument''" "[]"]
  have run: "Set period_after_quota ''/cg'' cg_cfs [] =
     SetRtSched period_after_quota ''/cg'' cg_cfs
       [(shares_write ''/cg'' cg_cfs, None),
        (period_write ''/cg'' cg_cfs, Some (ErrOther ''invalid argument'')),
        (quota_write ''/cg'' cg_cfs, None), (period_write ''/cg'' cg_cfs, None)]"
    by simp
  show ?thesis
    by (intro conjI nonzero outcomes answers run ok)
qed

theorem Set_reorder_rt_rejected:
  "CpuShares (Resources cg_full) \<noteq> 0 \<and> CpuPeriod (Resources cg_full) \<noteq> 0 \<and>
   CpuQuota (Resources cg_full) \<noteq> 0 \<and>
   map snd (writes_of ''cpu.cfs_period_us'' (performed (Set rt_less ''/cg'' cg_full) [])) =
     [Some (ErrOther ''invalid argument''), None] \<and>
   fst (Set rt_less ''/cg'' cg_full []) = Some (ErrOther ''operation not permitted'')"
  by (simp add: concrete_defs)

theorem Set_period_rejected_twice_witness:
  "map snd (writes_of ''cpu.cfs_period_us''
      (performed (Set (rejecting ''cpu.cfs_period_us'' (ErrOther ''invalid argument'')) ''/cg'' cg_cfs) [])) =
     [Some (ErrOther ''invalid argument''), Some (ErrOther ''invalid argument'')] \<and>
   Set (rejecting ''cpu.cfs_period_us'' (ErrOther ''invalid argument'')) ''/cg'' cg_cfs [] =
     (Some (ErrOther ''invalid argument''),
      [(shares_write ''/cg'' cg_cfs, None),
       (period_write ''/cg'' cg_cfs, Some (ErrOther ''invalid argument'')),
       (quota_write ''/cg'' cg_cfs, None),
       (period_write ''/cg'' cg_cfs, Some (ErrOther ''invalid argument''))]) \<and>
   CpuPeriod (Resources cg_period) \<noteq> 0 \<and> CpuShares (Resources cg_period) = 0 \<and>
   CpuQuota (Resources cg_period) = 0 \<and>
   rejecting ''cpu.cfs_period_us'' (ErrOther ''invalid argument'') [] (period_write ''/cg'' cg_period) =
     Some (ErrOther ''invalid argument'') \<and>
   rejecting ''cpu.cfs_period_us'' (ErrOther ''invalid argument'')
     [(period_write ''/cg'' cg_period, Some (ErrOther ''invalid argument''))] (period_write ''/cg'' cg_period) =
     Some (ErrOther ''invalid argument'') \<and>
   Set (rejecting ''cpu.cfs_period_us'' (ErrOther ''invalid argument'')) ''/cg'' cg_period [] =
     (Some (ErrOther ''invalid argument''),
      [(period_write ''/cg'' cg_period, Some (ErrOther ''invalid argument'')),
       (period_write ''/cg'' cg_period, Some (ErrOther ''invalid argument''))])"
proof -
  let ?K = "rejecting ''cpu.cfs_period_us'' (ErrOther ''invalid argument'')"
  let ?e = "ErrOther ''invalid argument''"
  have p1: "CpuPeriod (Resources cg_cfs) \<noteq> 0" and q1: "CpuQuota (Resources cg_cfs) \<noteq> 0"
    and s1: "CpuShares (Resources cg_cfs) \<noteq> 0"
    by (simp_all add: cg_cfs_def)
  have p2: "CpuPeriod (Resources cg_period) \<noteq> 0" and q2: "CpuQuota (Resources cg_period) = 0"
    and s2: "CpuShares (Resources cg_period) = 0"
    by (simp_all add: cg_period_def)
  have o1: "map snd (writes_of ''cpu.cfs_period_us'' (performed (Set ?K ''/cg'' cg_cfs) [])) = [Some ?e, Some ?e]"
    by (simp add: concrete_defs)
  have a2: "?K [] (period_write ''/cg'' cg_period) = Some ?e"
    "?K [(period_write ''/cg'' cg_period, Some ?e)] (period_write ''/cg'' cg_period) = Some ?e"
    by (simp_all add: rejecting_def call_defs)
  from p1 o1 q1 s1 Set_period_rejected_twice [of cg_cfs ?K "''/cg''" "[]" ?e ?e "[]"]
  have r1: "Set ?K ''/cg'' cg_cfs [] =
     (Some ?e, [(shares_write ''/cg'' cg_cfs, None), (period_write ''/cg'' cg_cfs, Some ?e),
                (quota_write ''/cg'' cg_cfs, None), (period_write ''/cg'' cg_cfs, Some ?e)])"
    by simp
  from p2 q2 s2 a2
    Set_period_rejected_twice [where cg = cg_period and K = ?K and dir = "''/cg''" and h = "[]"
      and ?h1.0 = "[]" and ?e1.0 = ?e and ?h3.0 = "[(period_write ''/cg'' cg_period, Some ?e)]" and ?e2.0 = ?e]
  have r2: "Set ?K ''/cg'' cg_period [] =
     (Some ?e, [(period_write ''/cg'' cg_period, Some ?e), (period_write ''/cg'' cg_period, Some ?e)])"
    by simp
  show ?thesis
    by (intro conjI o1 r1 p2 s2 q2 a2 r2)
qed


subsection \<open>Zero-valued fields and the path without a rejected write\<close>

lemma SetRtSched_zero_unwritten:
  "(CpuRtPeriod (Resources cg) = 0 \<longrightarrow>
      writes_of ''cpu.rt_period_us'' (performed (SetRtSched K dir cg) h) = []) \<and>
   (CpuRtRuntime (Resources cg) = 0 \<longrightarrow>
      writes_of ''cpu.rt_runtime_us'' (performed (SetRtSched K dir cg) h) = [])"
  apply (cases "CpuRtPeriod (Resources cg) = 0"; cases "K h (rt_period_write dir cg)";
         cases "CpuRtRuntime (Resources cg) = 0")
  apply (simp_all add: SetRtSched_performed Let_def attempt_def failure_def writes_of_def call_defs)
  done

lemma SetRtSched_all_accepted:
  assumes "\<forall>ev \<in> set (performed (SetRtSched K dir cg) h). snd ev = None"
  shows "SetRtSched K dir cg h = (None, h @ rt_ok_events dir cg)"
  using assms
  apply (cases "CpuRtPeriod (Resources cg) = 0"; cases "K h (rt_period_write dir cg)";
         cases "CpuRtRuntime (Resources cg) = 0";
         cases "K (h @ attempt K (CpuRtPeriod (Resources cg) \<noteq> 0) (rt_period_write dir cg) h)
                  (rt_runtime_write dir cg)")
  apply (simp_all add: SetRtSched_performed SetRtSched_stages Let_def attempt_def failure_def rt_ok_events_def)
  done

lemma Set_zero_unwritten:
  "(CpuShares (Resources cg) = 0 \<longrightarrow> writes_of ''cpu.shares'' (performed (Set K dir cg) h) = []) \<and>
   (CpuPeriod (Resources cg) = 0 \<longrightarrow> writes_of ''cpu.cfs_period_us'' (performed (Set K dir cg) h) = []) \<and>
   (CpuQuota (Resources cg) = 0 \<longrightarrow> writes_of ''cpu.cfs_quota_us'' (performed (Set K dir cg) h) = []) \<and>
   (CpuRtPeriod (Resources cg) = 0 \<longrightarrow> writes_of ''cpu.rt_period_us'' (performed (Set K dir cg) h) = []) \<and>
   (CpuRtRuntime (Resources cg) = 0 \<longrightarrow> writes_of ''cpu.rt_runtime_us'' (performed (Set K dir cg) h) = [])"
  apply (cases "CpuShares (Resources cg) = 0"; cases "K h (shares_write dir cg)";
         cases "CpuPeriod (Resources cg) = 0";
         cases "K (after_shares K dir cg h) (period_write dir cg)";
         cases "CpuQuota (Resources cg) = 0";
         cases "K (after_period K dir cg h) (quota_write dir cg)";
         cases "K (after_quota K dir cg h) (period_write dir cg)")
  apply (simp_all add: Set_performed Let_def attempt_def failure_def call_defs
           writes_of_append writes_of_Cons writes_of_Nil writes_of_SetRtSched
           SetRtSched_zero_unwritten [unfolded call_defs])
  done

lemma Set_all_accepted:
  assumes "\<forall>ev \<in> set (performed (Set K dir cg) h). snd ev = None"
  shows "Set K dir cg h =
    (None, h @ (if CpuShares (Resources cg) \<noteq> 0 then [(shares_write dir cg, None)] else []) @
               (if CpuPeriod (Resources cg) \<noteq> 0 then [(period_write dir cg, None)] else []) @
               (if CpuQuota (Resources cg) \<noteq> 0 then [(quota_write dir cg, None)] else []) @
               rt_ok_events dir cg)"
  using assms
  apply (cases "CpuShares (Resources cg) = 0"; cases "K h (shares_write dir cg)";
         cases "CpuPeriod (Resources cg) = 0";
         cases "K (after_shares K dir cg h) (period_write dir cg)";
         cases "CpuQuota (Resources cg) = 0";
         cases "K (after_period K dir cg h) (quota_write dir cg)";
         cases "K (after_quota K dir cg h) (period_write dir cg)")
  apply (simp_all add: Set_performed Set_stages Let_def attempt_def failure_def SetRtSched_all_accepted)
  done


text \<open>
  C3. A zero-valued field is never written: whatever the kernel answers, the events of
  \<open>Set\<close> hold no write of the control file of a field that is zero, and likewise for
  \<open>SetRtSched\<close> and the two real-time fields. When no write is rejected, \<open>Set\<close> and
  \<open>SetRtSched\<close> return success and have written the control file of every nonzero
  field exactly once, with that field's value. With all five fields zero \<open>Set\<close>
  returns success and leaves the log as it was.
\<close>

theorem zero_fields_never_written:
  "(CpuShares (Resources cg) = 0 \<longrightarrow> writes_of ''cpu.shares'' (performed (Set K dir cg) h) = []) \<and>
   (CpuPeriod (Resources cg) = 0 \<longrightarrow> writes_of ''cpu.cfs_period_us'' (performed (Set K dir cg) h) = []) \<and>
   (CpuQuota (Resources cg) = 0 \<longrightarrow> writes_of ''cpu.cfs_quota_us'' (performed (Set K dir cg) h) = []) \<and>
   (CpuRtPeriod (Resources cg) = 0 \<longrightarrow>
      writes_of ''cpu.rt_period_us'' (performed (Set K dir cg) h) = [] \<and>
      writes_of ''cpu.rt_period_us'' (performed (SetRtSched K dir cg) h) = []) \<and>
   (CpuRtRuntime (Resources cg) = 0 \<longrightarrow>
      writes_of ''cpu.rt_runtime_us'' (performed (Set K dir cg) h) = [] \<and>
      writes_of ''cpu.rt_runtime_us'' (performed (SetRtSched K dir cg) h) = []) \<and>
   ((\<forall>ev \<in> set (performed (Set K dir cg) h). snd ev = None) \<longrightarrow>
      fst (Set K dir cg h) = None \<and>
      writes_of ''cpu.shares'' (performed (Set K dir cg) h) =
        (if CpuShares (Resources cg) \<noteq> 0 then [(shares_write dir cg, None)] else []) \<and>
      writes_of ''cpu.cfs_period_us'' (performed (Set K dir cg) h) =
        (if CpuPeriod (Resources cg) \<noteq> 0 then [(period_write dir cg, None)] else []) \<and>
      writes_of ''cpu.cfs_quota_us'' (performed (Set K dir cg) h) =
        (if CpuQuota (Resources cg) \<noteq> 0 then [(quota_write dir cg, None)] else []) \<and>
      writes_of ''cpu.rt_period_us'' (performed (Set K dir cg) h) =
        (if CpuRtPeriod (Resources cg) \<noteq> 0 then [(rt_period_write dir cg, None)] else []) \<and>
      writes_of ''cpu.rt_runtime_us'' (performed (Set K dir cg) h) =
        (if CpuRtRuntime (Resources cg) \<noteq> 0 then [(rt_runtime_write dir cg, None)] else [])) \<and>
   ((\<forall>ev \<in> set (performed (SetRtSched K dir cg) h). snd ev = None) \<longrightarrow>
      fst (SetRtSched K dir cg h) = None \<and>
      writes_of ''cpu.rt_period_us'' (performed (SetRtSched K dir cg) h) =
        (if CpuRtPeriod (Resources cg) \<noteq> 0 then [(rt_period_write dir cg, None)] else []) \<and>
      writes_of ''cpu.rt_runtime_us'' (performed (SetRtSched K dir cg) h) =
        (if CpuRtRuntime (Resources cg) \<noteq> 0 then [(rt_runtime_write dir cg, None)] else [])) \<and>
   (CpuShares (Resources cg) = 0 \<and> CpuPeriod (Resources cg) = 0 \<and> CpuQuota (Resources cg) = 0 \<and>
    CpuRtPeriod (Resources cg) = 0 \<and> CpuRtRuntime (Resources cg) = 0 \<longrightarrow>
      Set K dir cg h = (None, h))"
proof -
  have set_happy: "fst (Set K dir cg h) = None \<and>
      writes_of ''cpu.shares'' (performed (Set K dir cg) h) =
        (if CpuShares (Resources cg) \<noteq> 0 then [(shares_write dir cg, None)] else []) \<and>
      writes_of ''cpu.cfs_period_us'' (performed (Set K dir cg) h) =
        (if CpuPeriod (Resources cg) \<noteq> 0 then [(period_write dir cg, None)] else []) \<and>
      writes_of ''cpu.cfs_quota_us'' (performed (Set K dir cg) h) =
        (if CpuQuota (Resources cg) \<noteq> 0 then [(quota_write dir cg, None)] else []) \<and>
      writes_of ''cpu.rt_period_us'' (performed (Set K dir cg) h) =
        (if CpuRtPeriod (Resources cg) \<noteq> 0 then [(rt_period_write dir cg, None)] else []) \<and>
      writes_of ''cpu.rt_runtime_us'' (performed (Set K dir cg) h) =
        (if CpuRtRuntime (Resources cg) \<noteq> 0 then [(rt_runtime_write dir cg, None)] else [])"
    if ok: "\<forall>ev \<in> set (performed (Set K dir cg) h). snd ev = None"
  proof -
    note run = Set_all_accepted [OF ok]
    have evs: "performed (Set K dir cg) h =
        (if CpuShares (Resources cg) \<noteq> 0 then [(shares_write dir cg, None)] else []) @
        (if CpuPeriod (Resources cg) \<noteq> 0 then [(period_write dir cg, None)] else []) @
        (if CpuQuota (Resources cg) \<noteq> 0 then [(quota_write dir cg, None)] else []) @
        rt_ok_events dir cg"
      by (simp add: performed_def [of "Set K dir cg"] run)
    show ?thesis
      unfolding evs
      by (simp add: run rt_ok_events_def call_defs writes_of_def)
  qed
  have rt_happy: "fst (SetRtSched K dir cg h) = None \<and>
      writes_of ''cpu.rt_period_us'' (performed (SetRtSched K dir cg) h) =
        (if CpuRtPeriod (Resources cg) \<noteq> 0 then [(rt_period_write dir cg, None)] else []) \<and>
      writes_of ''cpu.rt_runtime_us'' (performed (SetRtSched K dir cg) h) =
        (if CpuRtRuntime (Resources cg) \<noteq> 0 then [(rt_runtime_write dir cg, None)] else [])"
    if ok: "\<forall>ev \<in> set (performed (SetRtSched K dir cg) h). snd ev = None"
  proof -
    note run = SetRtSched_all_accepted [OF ok]
    have evs: "performed (SetRtSched K dir cg) h = rt_ok_events dir cg"
      by (simp add: performed_def [of "SetRtSched K dir cg"] run)
    show ?thesis
      unfolding evs
      by (simp add: run rt_ok_events_def call_defs writes_of_def)
  qed
  have all_zero: "Set K dir cg h = (None, h)"
    if "CpuShares (Resources cg) = 0 \<and> CpuPeriod (Resources cg) = 0 \<and> CpuQuota (Resources cg) = 0 \<and>
        CpuRtPeriod (Resources cg) = 0 \<and> CpuRtRuntime (Resources cg) = 0"
    using that by (simp add: Set_def SetRtSched_def)
  from Set_zero_unwritten [of cg K dir h] SetRtSched_zero_unwritten [of cg K dir h]
    set_happy rt_happy all_zero
  show ?thesis by blast
qed

theorem zero_fields_never_written_witness:
  "Set accepting ''/cg'' cg_zero [] = (None, []) \<and>
   writes_of ''cpu.shares'' (performed (Set accepting ''/cg'' cg_zero) []) = [] \<and>
   writes_of ''cpu.cfs_period_us'' (performed (Set accepting ''/cg'' cg_zero) []) = [] \<and>
   writes_of ''cpu.cfs_quota_us'' (performed (Set accepting ''/cg'' cg_zero) []) = [] \<and>
   writes_of ''cpu.rt_period_us'' (performed (SetRtSched accepting ''/cg'' cg_zero) []) = [] \<and>
   writes_of ''cpu.rt_runtime_us'' (performed (SetRtSched accepting ''/cg'' cg_zero) []) = [] \<and>
   map snd (performed (Set accepting ''/cg'' cg_full) []) = [None, None, None, None, None] \<and>
   fst (Set accepting ''/cg'' cg_full []) = None \<and>
   writes_of ''cpu.shares'' (performed (Set accepting ''/cg'' cg_full) []) =
     [(shares_write ''/cg'' cg_full, None)] \<and>
   writes_of ''cpu.cfs_period_us'' (performed (Set accepting ''/cg'' cg_full) []) =
     [(period_write ''/cg'' cg_full, None)] \<and>
   writes_of ''cpu.cfs_quota_us'' (performed (Set accepting ''/cg'' cg_full) []) =
     [(quota_write ''/cg'' cg_full, None)] \<and>
   writes_of ''cpu.rt_period_us'' (performed (Set accepting ''/cg'' cg_full) []) =
     [(rt_period_write ''/cg'' cg_full, None)] \<and>
   writes_of ''cpu.rt_runtime_us'' (performed (Set accepting ''/cg'' cg_full) []) =
     [(rt_runtime_write ''/cg'' cg_full, None)] \<and>
   map snd (performed (SetRtSched accepting ''/cg'' cg_full) []) = [None, None] \<and>
   fst (SetRtSched accepting ''/cg'' cg_full []) = None"
proof -
  have zero: "CpuShares (Resources cg_zero) = 0" "CpuPeriod (Resources cg_zero) = 0"
      "CpuQuota (Resources cg_zero) = 0" "CpuRtPeriod (Resources cg_zero) = 0"
      "CpuRtRuntime (Resources cg_zero) = 0"
    by (simp_all add: cg_zero_def)
  have full: "CpuShares (Resources cg_full) \<noteq> 0" "CpuPeriod (Resources cg_full) \<noteq> 0"
      "CpuQuota (Resources cg_full) \<noteq> 0" "CpuRtPeriod (Resources cg_full) \<noteq> 0"
      "CpuRtRuntime (Resources cg_full) \<noteq> 0"
    by (simp_all add: cg_full_def)
  have set_log: "map snd (performed (Set accepting ''/cg'' cg_full) []) = [None, None, None, None, None]"
    by (simp add: concrete_defs)
  have rt_log: "map snd (performed (SetRtSched accepting ''/cg'' cg_full) []) = [None, None]"
    by (simp add: concrete_defs)
  have set_ok: "\<forall>ev \<in> set (performed (Set accepting ''/cg'' cg_full) []). snd ev = None"
  proof
    fix ev assume "ev \<in> set (performed (Set accepting ''/cg'' cg_full) [])"
    then have "snd ev \<in> set (map snd (performed (Set accepting ''/cg'' cg_full) []))"
      by simp
    then show "snd ev = None" unfolding set_log by simp
  qed
  have rt_ok: "\<forall>ev \<in> set (performed (SetRtSched accepting ''/cg'' cg_full) []). snd ev = None"
  proof
    fix ev assume "ev \<in> set (performed (SetRtSched accepting ''/cg'' cg_full) [])"
    then have "snd ev \<in> set (map snd (performed (SetRtSched accepting ''/cg'' cg_full) []))"
      by simp
    then show "snd ev = None" unfolding rt_log by simp
  qed
  from zero_fields_never_written [of cg_zero accepting "''/cg''" "[]"]
    zero_fields_never_written [of cg_full accepting "''/cg''" "[]"]
    zero full set_log rt_log set_ok rt_ok
  show ?thesis by simp
qed


subsection \<open>ApplyDir and Apply\<close>

lemma SetRtSched_no_attach: "filter is_attach (performed (SetRtSched K dir cg) h) = []"
  apply (cases "CpuRtPeriod (Resources cg) = 0"; cases "K h (rt_period_write dir cg)";
         cases "CpuRtRuntime (Resources cg) = 0")
  apply (simp_all add: SetRtSched_performed Let_def attempt_def failure_def call_defs)
  done

lemma ApplyDir_empty: "ApplyDir K '''' cg n h = (None, h)"
  by (simp add: ApplyDir_def)

lemma ApplyDir_mkdir_fails:
  "dir \<noteq> '''' \<Longrightarrow> K h (MkdirAll dir 493) = Some e \<Longrightarrow>
   ApplyDir K dir cg n h = (Some e, h @ [(MkdirAll dir 493, Some e)])"
  by (simp add: ApplyDir_def perform_def)

lemma ApplyDir_rt_fails:
  "dir \<noteq> '''' \<Longrightarrow> K h (MkdirAll dir 493) = None \<Longrightarrow>
   fst (SetRtSched K dir cg (h @ [(MkdirAll dir 493, None)])) = Some e \<Longrightarrow>
   ApplyDir K dir cg n h = (Some e, snd (SetRtSched K dir cg (h @ [(MkdirAll dir 493, None)])))"
  by (cases "SetRtSched K dir cg (h @ [(MkdirAll dir 493, None)])")
     (simp add: ApplyDir_def perform_def)

lemma ApplyDir_attaches:
  "dir \<noteq> '''' \<Longrightarrow> K h (MkdirAll dir 493) = None \<Longrightarrow>
   SetRtSched K dir cg (h @ [(MkdirAll dir 493, None)]) = (None, h2) \<Longrightarrow>
   ApplyDir K dir cg n h =
     (K h2 (WriteCgroupProc dir n), h2 @ [(WriteCgroupProc dir n, K h2 (WriteCgroupProc dir n))])"
  by (simp add: ApplyDir_def perform_def)

lemma ApplyDir_attach_last:
  assumes "dir \<noteq> ''''"
    and "ev \<in> set (performed (ApplyDir K dir cg n) h)"
    and "is_attach ev"
  shows "K h (MkdirAll dir 493) = None \<and>
    fst (SetRtSched K dir cg (h @ [(MkdirAll dir 493, None)])) = None \<and>
    snd (ApplyDir K dir cg n h) = snd (SetRtSched K dir cg (h @ [(MkdirAll dir 493, None)])) @ [ev] \<and>
    fst ev = WriteCgroupProc dir n \<and>
    filter is_attach (performed (ApplyDir K dir cg n) h) = [ev]"
proof (cases "K h (MkdirAll dir 493)")
  case (Some e)
  with assms show ?thesis
    by (auto simp add: ApplyDir_mkdir_fails performed_def)
next
  case None
  let ?h1 = "h @ [(MkdirAll dir 493, None)]"
  obtain r h2 where rt: "SetRtSched K dir cg ?h1 = (r, h2)"
    by (cases "SetRtSched K dir cg ?h1")
  have h2: "h2 = ?h1 @ performed (SetRtSched K dir cg) ?h1"
    using SetRtSched_snd [of K dir cg ?h1] rt by simp
  have "\<not> is_attach x" if "x \<in> set (performed (SetRtSched K dir cg) ?h1)" for x
    using SetRtSched_no_attach [of K dir cg ?h1] that
    by (metis filter_empty_conv)
  with assms(3) have quiet: "ev \<notin> set (performed (SetRtSched K dir cg) ?h1)"
    by blast
  show ?thesis
  proof (cases r)
    case (Some e)
    with assms(1) None rt have "ApplyDir K dir cg n h = (Some e, h2)"
      using ApplyDir_rt_fails [of dir K h cg e n] by simp
    then have "performed (ApplyDir K dir cg n) h = (MkdirAll dir 493, None) # performed (SetRtSched K dir cg) ?h1"
      by (simp add: performed_def [of "ApplyDir K dir cg n"] h2)
    with assms(2,3) quiet show ?thesis by auto
  next
    case rnone: None
    let ?a = "(WriteCgroupProc dir n, K h2 (WriteCgroupProc dir n))"
    from assms(1) None rt rnone have run: "ApplyDir K dir cg n h = (K h2 (WriteCgroupProc dir n), h2 @ [?a])"
      using ApplyDir_attaches [of dir K h cg h2 n] by simp
    then have evs: "performed (ApplyDir K dir cg n) h =
        (MkdirAll dir 493, None) # performed (SetRtSched K dir cg) ?h1 @ [?a]"
      by (simp add: performed_def [of "ApplyDir K dir cg n"] h2)
    with assms(2,3) quiet have ev: "ev = ?a" by auto
    have "filter is_attach (performed (ApplyDir K dir cg n) h) = [?a]"
      unfolding evs using SetRtSched_no_attach [of K dir cg ?h1] by simp
    with ev run rt rnone None show ?thesis by simp
  qed
qed

lemma Apply_fatal:
  "path d ''cpu'' = (p, Some e) \<Longrightarrow> \<not> IsNotFound e \<Longrightarrow> Apply K d h = (Some e, h)"
  by (simp add: Apply_def)

lemma Apply_not_mounted:
  "path d ''cpu'' = (p, Some e) \<Longrightarrow> IsNotFound e \<Longrightarrow>
   Apply K d h = ApplyDir K p (config d) (pid d) h"
  by (simp add: Apply_def)

lemma Apply_resolved:
  "path d ''cpu'' = (p, None) \<Longrightarrow> Apply K d h = ApplyDir K p (config d) (pid d) h"
  by (simp add: Apply_def)

lemma Apply_cases:
  "(\<exists>e. Apply K d h = (Some e, h)) \<or>
   Apply K d h = ApplyDir K (fst (path d ''cpu'')) (config d) (pid d) h"
  by (cases "path d ''cpu''") (auto simp add: Apply_def split: option.splits)

text \<open>
  C4. In every execution of \<open>ApplyDir\<close> with a non-empty path, and so in every execution
  of \<open>Apply\<close>, an event that places the process into the cgroup is the last event of the
  execution and the only such event: the directory has been created, \<open>SetRtSched\<close> has
  run on the log after that and has returned success, and the process is attached on
  the log \<open>SetRtSched\<close> left.
\<close>

theorem rt_sched_before_attach:
  "(dir \<noteq> '''' \<and> ev \<in> set (performed (ApplyDir K dir cg n) h) \<and> is_attach ev \<longrightarrow>
      K h (MkdirAll dir 493) = None \<and>
      fst (SetRtSched K dir cg (h @ [(MkdirAll dir 493, None)])) = None \<and>
      snd (ApplyDir K dir cg n h) = snd (SetRtSched K dir cg (h @ [(MkdirAll dir 493, None)])) @ [ev] \<and>
      fst ev = WriteCgroupProc dir n \<and>
      filter is_attach (performed (ApplyDir K dir cg n) h) = [ev]) \<and>
   (ev' \<in> set (performed (Apply K d) h) \<and> is_attach ev' \<longrightarrow>
      fst (path d ''cpu'') \<noteq> '''' \<and>
      K h (MkdirAll (fst (path d ''cpu'')) 493) = None \<and>
      fst (SetRtSched K (fst (path d ''cpu'')) (config d) (h @ [(MkdirAll (fst (path d ''cpu'')) 493, None)])) = None \<and>
      snd (Apply K d h) =
        snd (SetRtSched K (fst (path d ''cpu'')) (config d) (h @ [(MkdirAll (fst (path d ''cpu'')) 493, None)])) @ [ev'] \<and>
      fst ev' = WriteCgroupProc (fst (path d ''cpu'')) (pid d) \<and>
      filter is_attach (performed (Apply K d) h) = [ev'])"
proof -
  have dir_part: "dir \<noteq> '''' \<and> ev \<in> set (performed (ApplyDir K dir cg n) h) \<and> is_attach ev \<longrightarrow>
      K h (MkdirAll dir 493) = None \<and>
      fst (SetRtSched K dir cg (h @ [(MkdirAll dir 493, None)])) = None \<and>
      snd (ApplyDir K dir cg n h) = snd (SetRtSched K dir cg (h @ [(MkdirAll dir 493, None)])) @ [ev] \<and>
      fst ev = WriteCgroupProc dir n \<and>
      filter is_attach (performed (ApplyDir K dir cg n) h) = [ev]"
    using ApplyDir_attach_last [of dir ev K cg n h] by blast
  have apply_part: "fst (path d ''cpu'') \<noteq> '''' \<and>
      K h (MkdirAll (fst (path d ''cpu'')) 493) = None \<and>
      fst (SetRtSched K (fst (path d ''cpu'')) (config d) (h @ [(MkdirAll (fst (path d ''cpu'')) 493, None)])) = None \<and>
      snd (Apply K d h) =
        snd (SetRtSched K (fst (path d ''cpu'')) (config d) (h @ [(MkdirAll (fst (path d ''cpu'')) 493, None)])) @ [ev'] \<and>
      fst ev' = WriteCgroupProc (fst (path d ''cpu'')) (pid d) \<and>
      filter is_attach (performed (Apply K d) h) = [ev']"
    if a: "ev' \<in> set (performed (Apply K d) h) \<and> is_attach ev'"
  proof -
  let ?p = "fst (path d ''cpu'')"
  from a have "performed (Apply K d) h \<noteq> []" by auto
  with Apply_cases [of K d h] have eq: "Apply K d h = ApplyDir K ?p (config d) (pid d) h"
    by (auto simp add: performed_def)
  then have pe: "performed (Apply K d) h = performed (ApplyDir K ?p (config d) (pid d)) h"
    by (simp add: performed_def)
  with a have nonempty: "?p \<noteq> ''''"
    by (auto simp add: performed_def ApplyDir_empty)
  note * = ApplyDir_attach_last [OF nonempty, of ev' K "config d" "pid d" h]
  from a pe * nonempty eq show ?thesis by simp
  qed
  from dir_part apply_part show ?thesis by blast
qed



theorem rt_sched_before_attach_witness:
  "''/sys/fs/cgroup/cpu/c1'' \<noteq> '''' \<and>
   performed (ApplyDir accepting ''/sys/fs/cgroup/cpu/c1'' cg_full 42) [] =
     [(MkdirAll ''/sys/fs/cgroup/cpu/c1'' 493, None),
      (rt_period_write ''/sys/fs/cgroup/cpu/c1'' cg_full, None),
      (rt_runtime_write ''/sys/fs/cgroup/cpu/c1'' cg_full, None),
      (WriteCgroupProc ''/sys/fs/cgroup/cpu/c1'' 42, None)] \<and>
   performed (Apply accepting d_mounted) [] =
     performed (ApplyDir accepting ''/sys/fs/cgroup/cpu/c1'' cg_full 42) [] \<and>
   is_attach (WriteCgroupProc ''/sys/fs/cgroup/cpu/c1'' 42, None) \<and>
   fst (SetRtSched accepting ''/sys/fs/cgroup/cpu/c1'' cg_full
          [(MkdirAll ''/sys/fs/cgroup/cpu/c1'' 493, None)]) = None \<and>
   snd (ApplyDir accepting ''/sys/fs/cgroup/cpu/c1'' cg_full 42 []) =
     snd (SetRtSched accepting ''/sys/fs/cgroup/cpu/c1'' cg_full
            [(MkdirAll ''/sys/fs/cgroup/cpu/c1'' 493, None)]) @
     [(WriteCgroupProc ''/sys/fs/cgroup/cpu/c1'' 42, None)] \<and>
   snd (Apply accepting d_mounted []) =
     snd (SetRtSched accepting ''/sys/fs/cgroup/cpu/c1'' cg_full
            [(MkdirAll ''/sys/fs/cgroup/cpu/c1'' 493, None)]) @
     [(WriteCgroupProc ''/sys/fs/cgroup/cpu/c1'' 42, None)]"
proof -
  let ?dir = "''/sys/fs/cgroup/cpu/c1''"
  let ?ev = "(WriteCgroupProc ?dir 42, None :: error option)"
  have dir: "?dir \<noteq> ''''" by simp
  have evs: "performed (ApplyDir accepting ?dir cg_full 42) [] =
     [(MkdirAll ?dir 493, None), (rt_period_write ?dir cg_full, None),
      (rt_runtime_write ?dir cg_full, None), ?ev]"
    by (simp add: ApplyDir_def concrete_defs)
  have same: "performed (Apply accepting d_mounted) [] = performed (ApplyDir accepting ?dir cg_full 42) []"
    by (simp add: Apply_def d_mounted_def performed_def)
  have d: "fst (path d_mounted ''cpu'') = ?dir" "config d_mounted = cg_full" "pid d_mounted = 42"
    by (simp_all add: d_mounted_def)
  have mem: "?ev \<in> set (performed (ApplyDir accepting ?dir cg_full 42) [])"
    unfolding evs by simp
  have mem': "?ev \<in> set (performed (Apply accepting d_mounted) [])"
    unfolding same by (rule mem)
  have att: "is_attach ?ev" by simp
  from rt_sched_before_attach [of ?dir ?ev accepting cg_full 42 "[]" ?ev d_mounted]
    dir evs same d mem mem' att
  show ?thesis by simp
qed

text \<open>
  C5. When the path resolved for the cpu subsystem is empty, with no error or with a
  "subsystem not mounted" error, \<open>Apply\<close> returns success and makes no call that
  changes the file system. A "subsystem not mounted" error is never returned: \<open>Apply\<close>
  goes on to \<open>ApplyDir\<close> with the path that came with it. Every other resolution error
  is returned at once, before any call. \<open>ApplyDir\<close> on the empty path returns success
  and makes no call.
\<close>

theorem Apply_path_resolution:
  "(path d ''cpu'' = ('''', None) \<longrightarrow> Apply K d h = (None, h)) \<and>
   (path d ''cpu'' = ('''', Some e) \<and> IsNotFound e \<longrightarrow> Apply K d h = (None, h)) \<and>
   (path d ''cpu'' = (p, Some e) \<and> IsNotFound e \<longrightarrow>
      Apply K d h = ApplyDir K p (config d) (pid d) h) \<and>
   (path d ''cpu'' = (p, Some e) \<and> \<not> IsNotFound e \<longrightarrow> Apply K d h = (Some e, h)) \<and>
   ApplyDir K '''' cg n h = (None, h)"
  by (simp add: Apply_resolved Apply_not_mounted Apply_fatal ApplyDir_empty)

theorem Apply_path_resolution_witness:
  "Apply accepting d_empty [] = (None, []) \<and>
   IsNotFound (NotFoundError ''cpu'') \<and>
   Apply accepting d_unmounted [] = (None, []) \<and>
   Apply accepting d_unmounted [] = ApplyDir accepting '''' (config d_unmounted) (pid d_unmounted) [] \<and>
   \<not> IsNotFound (ErrOther ''permission denied'') \<and>
   Apply accepting d_broken [] = (Some (ErrOther ''permission denied''), [])"
proof -
  have p1: "path d_empty ''cpu'' = ('''', None)"
    by (simp add: d_empty_def)
  have p2: "path d_unmounted ''cpu'' = ('''', Some (NotFoundError ''cpu''))"
    by (simp add: d_unmounted_def)
  have p3: "path d_broken ''cpu'' = ('''', Some (ErrOther ''permission denied''))"
    by (simp add: d_broken_def)
  have c2: "IsNotFound (NotFoundError ''cpu'')" and c3: "\<not> IsNotFound (ErrOther ''permission denied'')"
    by (simp_all add: IsNotFound_def)
  from Apply_path_resolution [of d_empty accepting "[]"]
    Apply_path_resolution [of d_unmounted accepting "[]" "NotFoundError ''cpu''" "''''"]
    Apply_path_resolution [of d_broken accepting "[]" "ErrOther ''permission denied''" "''''"]
    p1 p2 p3 c2 c3
  show ?thesis by simp
qed


subsection \<open>GetStats\<close>

lemma upd_throttling_id: "upd_throttling (\<lambda>d. d) stats = stats"
  by (simp add: upd_throttling_def)

lemma upd_throttling_comp:
  "upd_throttling f (upd_throttling g stats) = upd_throttling (\<lambda>d. f (g d)) stats"
  by (simp add: upd_throttling_def)

lemma read_counters_Nil: "read_counters [] d = d"
  by (simp add: read_counters_def)

lemma read_counters_Cons:
  "read_counters ((t, v) # kvs) d =
     read_counters kvs
       (if t = ''nr_periods'' then d\<lparr>Periods := v\<rparr>
        else if t = ''nr_throttled'' then d\<lparr>ThrottledPeriods := v\<rparr>
        else if t = ''throttled_time'' then d\<lparr>ThrottledTime := v\<rparr>
        else d)"
  by (simp add: read_counters_def)

lemma GetStats_loop_parsed:
  "map parse ls = map Inr kvs \<Longrightarrow>
   GetStats_loop parse ls stats = (None, upd_throttling (read_counters kvs) stats)"
proof (induction ls arbitrary: kvs stats)
  case Nil
  then show ?case
    by (simp add: upd_throttling_def read_counters_def)
next
  case (Cons l ls)
  from Cons.prems obtain t v kvs' where kvs: "kvs = (t, v) # kvs'"
    and l: "parse l = Inr (t, v)" and rest: "map parse ls = map Inr kvs'"
    by (cases kvs) auto
  show ?case
    unfolding kvs
    by (simp add: l Cons.IH [OF rest] upd_throttling_comp read_counters_Cons)
qed

lemma GetStats_loop_append:
  "GetStats_loop parse (xs @ ys) stats =
     (case GetStats_loop parse xs stats of
        (None, stats') \<Rightarrow> GetStats_loop parse ys stats'
      | (Some err, stats') \<Rightarrow> (Some err, stats'))"
  by (induction xs arbitrary: stats) (simp_all split: sum.splits)

lemma GetStats_loop_frame:
  "snd (GetStats_loop parse ls stats) =
     upd_throttling (\<lambda>d. ThrottlingData (CpuStats (snd (GetStats_loop parse ls stats)))) stats"
proof (induction ls arbitrary: stats)
  case Nil
  show ?case by (simp add: upd_throttling_def)
next
  case (Cons l ls)
  show ?case
  proof (cases "parse l")
    case (Inl err)
    then show ?thesis by (simp add: upd_throttling_def)
  next
    case (Inr kv)
    obtain t v where kv: "kv = (t, v)" by (cases kv)
    let ?s = "if t = ''nr_periods'' then upd_throttling (\<lambda>d. d\<lparr>Periods := v\<rparr>) stats
             else if t = ''nr_throttled'' then upd_throttling (\<lambda>d. d\<lparr>ThrottledPeriods := v\<rparr>) stats
             else if t = ''throttled_time'' then upd_throttling (\<lambda>d. d\<lparr>ThrottledTime := v\<rparr>) stats
             else stats"
    have step: "GetStats_loop parse (l # ls) stats = GetStats_loop parse ls ?s"
      using Inr kv by simp
    have s: "?s = upd_throttling (\<lambda>d. ThrottlingData (CpuStats ?s)) stats"
      by (simp add: upd_throttling_def)
    have "snd (GetStats_loop parse ls ?s) =
        upd_throttling (\<lambda>d. ThrottlingData (CpuStats (snd (GetStats_loop parse ls ?s)))) ?s"
      by (rule Cons.IH)
    also have "\<dots> = upd_throttling (\<lambda>d. ThrottlingData (CpuStats (snd (GetStats_loop parse ls ?s)))) stats"
      by (subst s) (simp add: upd_throttling_comp)
    finally show ?thesis
      unfolding step .
  qed
qed

lemma last_value_recognized:
  "key = ''nr_periods'' \<or> key = ''nr_throttled'' \<or> key = ''throttled_time'' \<Longrightarrow>
   last_value key (filter recognized kvs) old = last_value key kvs old"
  by (induction kvs arbitrary: old) (auto simp add: recognized_def)

lemma read_counters_recognized: "read_counters (filter recognized kvs) = read_counters kvs"
  by (rule ext) (simp add: read_counters_def last_value_recognized)

lemma upd_throttling_fixed:
  "upd_throttling f stats = stats \<longleftrightarrow>
   f (ThrottlingData (CpuStats stats)) = ThrottlingData (CpuStats stats)"
proof
  assume "upd_throttling f stats = stats"
  then have "ThrottlingData (CpuStats (upd_throttling f stats)) = ThrottlingData (CpuStats stats)"
    by simp
  then show "f (ThrottlingData (CpuStats stats)) = ThrottlingData (CpuStats stats)"
    by (simp add: upd_throttling_def)
next
  assume "f (ThrottlingData (CpuStats stats)) = ThrottlingData (CpuStats stats)"
  then show "upd_throttling f stats = stats"
    by (simp add: upd_throttling_def)
qed


text \<open>
  C6. When \<open>cpu.stat\<close> cannot be opened because it does not exist, \<open>GetStats\<close> returns
  success and the stats record is the one passed in; any other error of opening the file
  is returned, with the stats record as passed in.
\<close>

theorem GetStats_missing_file:
  "(open_lines dir ''cpu.stat'' = Inl err \<and> IsNotExist err \<longrightarrow>
      GetStats open_lines parse dir stats = (None, stats)) \<and>
   (open_lines dir ''cpu.stat'' = Inl err \<and> \<not> IsNotExist err \<longrightarrow>
      GetStats open_lines parse dir stats = (Some err, stats))"
  by (simp add: GetStats_def)

theorem GetStats_missing_file_witness:
  "no_file ''/cg'' ''cpu.stat'' = Inl (ErrNotExist ''cpu.stat'') \<and>
   IsNotExist (ErrNotExist ''cpu.stat'') \<and>
   GetStats no_file getCgroupParamKeyValue ''/cg'' stats0 = (None, stats0) \<and>
   unreadable ''/cg'' ''cpu.stat'' = Inl (ErrOther ''permission denied'') \<and>
   \<not> IsNotExist (ErrOther ''permission denied'') \<and>
   GetStats unreadable getCgroupParamKeyValue ''/cg'' stats0 =
     (Some (ErrOther ''permission denied''), stats0)"
proof -
  have o1: "no_file ''/cg'' ''cpu.stat'' = Inl (ErrNotExist ''cpu.stat'')"
    by (simp add: no_file_def)
  have o2: "unreadable ''/cg'' ''cpu.stat'' = Inl (ErrOther ''permission denied'')"
    by (simp add: unreadable_def)
  have c1: "IsNotExist (ErrNotExist ''cpu.stat'')" and c2: "\<not> IsNotExist (ErrOther ''permission denied'')"
    by (simp_all add: IsNotExist_def)
  from GetStats_missing_file [of no_file "''/cg''" "ErrNotExist ''cpu.stat''" getCgroupParamKeyValue stats0]
    GetStats_missing_file [of unreadable "''/cg''" "ErrOther ''permission denied''" getCgroupParamKeyValue stats0]
    o1 o2 c1 c2
  show ?thesis by simp
qed

text \<open>
  C7. When every line of \<open>cpu.stat\<close> parses, \<open>GetStats\<close> returns success and the three
  counters are read from the parsed lines: \<open>Periods\<close> from the last \<open>nr_periods\<close> line,
  \<open>ThrottledPeriods\<close> from the last \<open>nr_throttled\<close> line, \<open>ThrottledTime\<close> from the last
  \<open>throttled_time\<close> line, each keeping its value when its key is absent; lines with
  any other key change nothing. In particular the lines \<open>nr_periods 10\<close>,
  \<open>nr_throttled 2\<close>, \<open>throttled_time 500000\<close>, parsed as their key and number, give
  10, 2 and 500000.
\<close>

theorem GetStats_counters:
  "(open_lines dir ''cpu.stat'' = Inr ls \<and> map parse ls = map Inr kvs \<longrightarrow>
      GetStats open_lines parse dir stats = (None, upd_throttling (read_counters kvs) stats) \<and>
      read_counters kvs = read_counters (filter recognized kvs)) \<and>
   (open_lines dir ''cpu.stat'' = Inr [''nr_periods 10'', ''nr_throttled 2'', ''throttled_time 500000''] \<and>
    parse ''nr_periods 10'' = Inr (''nr_periods'', 10) \<and>
    parse ''nr_throttled 2'' = Inr (''nr_throttled'', 2) \<and>
    parse ''throttled_time 500000'' = Inr (''throttled_time'', 500000) \<longrightarrow>
      GetStats open_lines parse dir stats =
        (None, upd_throttling (\<lambda>d. d\<lparr>Periods := 10, ThrottledPeriods := 2, ThrottledTime := 500000\<rparr>) stats))"
proof (intro conjI impI)
  assume a: "open_lines dir ''cpu.stat'' = Inr ls \<and> map parse ls = map Inr kvs"
  then show "GetStats open_lines parse dir stats = (None, upd_throttling (read_counters kvs) stats)"
    by (simp add: GetStats_def GetStats_loop_parsed)
  show "read_counters kvs = read_counters (filter recognized kvs)"
    by (simp add: read_counters_recognized)
next
  assume a: "open_lines dir ''cpu.stat'' = Inr [''nr_periods 10'', ''nr_throttled 2'', ''throttled_time 500000''] \<and>
    parse ''nr_periods 10'' = Inr (''nr_periods'', 10) \<and>
    parse ''nr_throttled 2'' = Inr (''nr_throttled'', 2) \<and>
    parse ''throttled_time 500000'' = Inr (''throttled_time'', 500000)"
  then have "map parse [''nr_periods 10'', ''nr_throttled 2'', ''throttled_time 500000''] =
      map Inr [(''nr_periods'', 10), (''nr_throttled'', 2), (''throttled_time'', 500000)]"
    by simp
  then have loop: "GetStats_loop parse [''nr_periods 10'', ''nr_throttled 2'', ''throttled_time 500000''] stats =
      (None, upd_throttling
         (read_counters [(''nr_periods'', 10), (''nr_throttled'', 2), (''throttled_time'', 500000)]) stats)"
    by (rule GetStats_loop_parsed)
  have counters: "read_counters [(''nr_periods'', 10), (''nr_throttled'', 2), (''throttled_time'', 500000)] =
      (\<lambda>d. d\<lparr>Periods := 10, ThrottledPeriods := 2, ThrottledTime := 500000\<rparr>)"
    by (rule ext) (simp add: read_counters_def)
  from a have "GetStats open_lines parse dir stats =
      GetStats_loop parse [''nr_periods 10'', ''nr_throttled 2'', ''throttled_time 500000''] stats"
    by (simp only: GetStats_def sum.case)
  then show "GetStats open_lines parse dir stats =
        (None, upd_throttling (\<lambda>d. d\<lparr>Periods := 10, ThrottledPeriods := 2, ThrottledTime := 500000\<rparr>) stats)"
    by (simp only: loop counters)
qed

lemma parse_examples:
  "getCgroupParamKeyValue ''nr_periods 10'' = Inr (''nr_periods'', 10)"
  "getCgroupParamKeyValue ''nr_throttled 2'' = Inr (''nr_throttled'', 2)"
  "getCgroupParamKeyValue ''throttled_time 500000'' = Inr (''throttled_time'', 500000)"
  "getCgroupParamKeyValue ''nr_throttled'' = Inl (ErrOther ''line is not in key value format'')"
  "getCgroupParamKeyValue ''nr_throttled many'' = Inl (ErrOther ''invalid syntax'')"
  "getCgroupParamKeyValue ''nr_periods 0'' = Inr (''nr_periods'', 0)"
  by (simp_all add: getCgroupParamKeyValue_def Fields_def is_space_def parseUint_def is_digit_def)

theorem GetStats_counters_witness:
  "stat_file [''nr_periods 10'', ''nr_throttled 2'', ''throttled_time 500000''] ''/cg'' ''cpu.stat'' =
     Inr [''nr_periods 10'', ''nr_throttled 2'', ''throttled_time 500000''] \<and>
   map getCgroupParamKeyValue [''nr_periods 10'', ''nr_throttled 2'', ''throttled_time 500000''] =
     map Inr [(''nr_periods'', 10), (''nr_throttled'', 2), (''throttled_time'', 500000)] \<and>
   GetStats (stat_file [''nr_periods 10'', ''nr_throttled 2'', ''throttled_time 500000''])
       getCgroupParamKeyValue ''/cg'' stats0 =
     (None, \<lparr>CpuStats = \<lparr>CpuUsage = (),
               ThrottlingData = \<lparr>Periods = 10, ThrottledPeriods = 2, ThrottledTime = 500000\<rparr>\<rparr>,
             OtherStats = ()\<rparr>)"
proof -
  let ?ls = "[''nr_periods 10'', ''nr_throttled 2'', ''throttled_time 500000'']"
  have o: "stat_file ?ls ''/cg'' ''cpu.stat'' = Inr ?ls"
    by (simp add: stat_file_def)
  have p: "map getCgroupParamKeyValue ?ls =
      map Inr [(''nr_periods'', 10), (''nr_throttled'', 2), (''throttled_time'', 500000)]"
    by (simp add: parse_examples)
  from GetStats_counters [of "stat_file ?ls" "''/cg''" ?ls getCgroupParamKeyValue
      "[(''nr_periods'', 10), (''nr_throttled'', 2), (''throttled_time'', 500000)]" stats0]
    o p
  have "GetStats (stat_file ?ls) getCgroupParamKeyValue ''/cg'' stats0 =
      (None, upd_throttling
         (read_counters [(''nr_periods'', 10), (''nr_throttled'', 2), (''throttled_time'', 500000)]) stats0)"
    by blast
  then have "GetStats (stat_file ?ls) getCgroupParamKeyValue ''/cg'' stats0 =
     (None, \<lparr>CpuStats = \<lparr>CpuUsage = (),
               ThrottlingData = \<lparr>Periods = 10, ThrottledPeriods = 2, ThrottledTime = 500000\<rparr>\<rparr>,
             OtherStats = ()\<rparr>)"
    by (simp add: read_counters_def upd_throttling_def stats0_def)
  with o p show ?thesis by blast
qed


text \<open>
  C8 (as amended). When a line of \<open>cpu.stat\<close> fails to parse and every line before it
  parses, \<open>GetStats\<close> returns the parse error of that line and reads no line after it.
  The stats record is not restored: each counter holds the value of the last line before
  the failing one that has its key, and its old value when there is none. So the record
  is the one passed in when no line before the failing one has a recognized key, and in
  general exactly when the values so assigned are the values the record already held.
\<close>

theorem GetStats_parse_error:
  assumes "open_lines dir ''cpu.stat'' = Inr (pre @ l # post)"
    and "map parse pre = map Inr kvs"
    and "parse l = Inl err"
  shows "GetStats open_lines parse dir stats = (Some err, upd_throttling (read_counters kvs) stats) \<and>
    (filter recognized kvs = [] \<longrightarrow> GetStats open_lines parse dir stats = (Some err, stats)) \<and>
    (snd (GetStats open_lines parse dir stats) = stats \<longleftrightarrow>
       read_counters kvs (ThrottlingData (CpuStats stats)) = ThrottlingData (CpuStats stats))"
proof -
  have run: "GetStats open_lines parse dir stats = (Some err, upd_throttling (read_counters kvs) stats)"
    using assms
    by (simp add: GetStats_def GetStats_loop_append GetStats_loop_parsed)
  have same: "upd_throttling (read_counters kvs) stats = stats" if "filter recognized kvs = []"
  proof -
    have "read_counters kvs = read_counters (filter recognized kvs)"
      by (simp add: read_counters_recognized)
    also have "\<dots> = (\<lambda>d. d)"
      unfolding that by (rule ext) (simp add: read_counters_Nil)
    finally show ?thesis
      by (simp add: upd_throttling_id)
  qed
  have fixed: "snd (GetStats open_lines parse dir stats) = stats \<longleftrightarrow>
       read_counters kvs (ThrottlingData (CpuStats stats)) = ThrottlingData (CpuStats stats)"
    unfolding run by (simp add: upd_throttling_fixed)
  from run same fixed show ?thesis by simp
qed

theorem GetStats_parse_error_witness:
  "stat_file [''nr_periods 10'', ''nr_throttled many'', ''throttled_time 500000''] ''/cg'' ''cpu.stat'' =
     Inr ([''nr_periods 10''] @ ''nr_throttled many'' # [''throttled_time 500000'']) \<and>
   map getCgroupParamKeyValue [''nr_periods 10''] = map Inr [(''nr_periods'', 10)] \<and>
   getCgroupParamKeyValue ''nr_throttled many'' = Inl (ErrOther ''invalid syntax'') \<and>
   GetStats (stat_file [''nr_periods 10'', ''nr_throttled many'', ''throttled_time 500000''])
       getCgroupParamKeyValue ''/cg'' stats0 =
     (Some (ErrOther ''invalid syntax''),
      \<lparr>CpuStats = \<lparr>CpuUsage = (),
          ThrottlingData = \<lparr>Periods = 10, ThrottledPeriods = 0, ThrottledTime = 0\<rparr>\<rparr>,
        OtherStats = ()\<rparr>) \<and>
   stat_file [''nr_throttled'', ''nr_periods 10''] ''/cg'' ''cpu.stat'' =
     Inr ([] @ ''nr_throttled'' # [''nr_periods 10'']) \<and>
   getCgroupParamKeyValue ''nr_throttled'' = Inl (ErrOther ''line is not in key value format'') \<and>
   GetStats (stat_file [''nr_throttled'', ''nr_periods 10'']) getCgroupParamKeyValue ''/cg'' stats0 =
     (Some (ErrOther ''line is not in key value format''), stats0) \<and>
   stat_file [''nr_periods 0'', ''nr_throttled''] ''/cg'' ''cpu.stat'' =
     Inr ([''nr_periods 0''] @ ''nr_throttled'' # []) \<and>
   map getCgroupParamKeyValue [''nr_periods 0''] = map Inr [(''nr_periods'', 0)] \<and>
   read_counters [(''nr_periods'', 0)] (ThrottlingData (CpuStats stats0)) =
     ThrottlingData (CpuStats stats0) \<and>
   snd (GetStats (stat_file [''nr_periods 0'', ''nr_throttled'']) getCgroupParamKeyValue ''/cg'' stats0) =
     stats0"
proof -
  let ?f1 = "stat_file [''nr_periods 10'', ''nr_throttled many'', ''throttled_time 500000'']"
  let ?f2 = "stat_file [''nr_throttled'', ''nr_periods 10'']"
  let ?f3 = "stat_file [''nr_periods 0'', ''nr_throttled'']"
  have o1: "?f1 ''/cg'' ''cpu.stat'' = Inr ([''nr_periods 10''] @ ''nr_throttled many'' # [''throttled_time 500000''])"
    by (simp add: stat_file_def)
  have p1: "map getCgroupParamKeyValue [''nr_periods 10''] = map Inr [(''nr_periods'', 10)]"
    by (simp add: parse_examples)
  have e1: "getCgroupParamKeyValue ''nr_throttled many'' = Inl (ErrOther ''invalid syntax'')"
    by (simp add: parse_examples)
  have o2: "?f2 ''/cg'' ''cpu.stat'' = Inr ([] @ ''nr_throttled'' # [''nr_periods 10''])"
    by (simp add: stat_file_def)
  have p2: "map getCgroupParamKeyValue [] = map Inr []"
    by simp
  have e2: "getCgroupParamKeyValue ''nr_throttled'' = Inl (ErrOther ''line is not in key value format'')"
    by (simp add: parse_examples)
  have none: "filter recognized [] = []"
    by simp
  have o3: "?f3 ''/cg'' ''cpu.stat'' = Inr ([''nr_periods 0''] @ ''nr_throttled'' # [])"
    by (simp add: stat_file_def)
  have p3: "map getCgroupParamKeyValue [''nr_periods 0''] = map Inr [(''nr_periods'', 0)]"
    by (simp add: parse_examples)
  have c3: "read_counters [(''nr_periods'', 0)] (ThrottlingData (CpuStats stats0)) =
      ThrottlingData (CpuStats stats0)"
    by (simp add: read_counters_def stats0_def)
  have r1: "GetStats ?f1 getCgroupParamKeyValue ''/cg'' stats0 =
      (Some (ErrOther ''invalid syntax''), upd_throttling (read_counters [(''nr_periods'', 10)]) stats0)"
    using GetStats_parse_error [where open_lines = ?f1 and dir = "''/cg''" and parse = getCgroupParamKeyValue
        and pre = "[''nr_periods 10'']" and l = "''nr_throttled many''" and post = "[''throttled_time 500000'']"
        and kvs = "[(''nr_periods'', 10)]" and err = "ErrOther ''invalid syntax''" and stats = stats0,
        OF o1 p1 e1]
    by (rule conjunct1)
  have r2: "GetStats ?f2 getCgroupParamKeyValue ''/cg'' stats0 =
      (Some (ErrOther ''line is not in key value format''), stats0)"
    using GetStats_parse_error [where open_lines = ?f2 and dir = "''/cg''" and parse = getCgroupParamKeyValue
        and pre = "[]" and l = "''nr_throttled''" and post = "[''nr_periods 10'']"
        and kvs = "[]" and err = "ErrOther ''line is not in key value format''" and stats = stats0,
        OF o2 p2 e2] none
    by blast
  have r3: "snd (GetStats ?f3 getCgroupParamKeyValue ''/cg'' stats0) = stats0"
    using GetStats_parse_error [where open_lines = ?f3 and dir = "''/cg''" and parse = getCgroupParamKeyValue
        and pre = "[''nr_periods 0'']" and l = "''nr_throttled''" and post = "[]"
        and kvs = "[(''nr_periods'', 0)]" and err = "ErrOther ''line is not in key value format''"
        and stats = stats0,
        OF o3 p3 e2] c3
    by blast
  have v1: "upd_throttling (read_counters [(''nr_periods'', 10)]) stats0 =
      \<lparr>CpuStats = \<lparr>CpuUsage = (),
          ThrottlingData = \<lparr>Periods = 10, ThrottledPeriods = 0, ThrottledTime = 0\<rparr>\<rparr>,
        OtherStats = ()\<rparr>"
    by (simp add: read_counters_def upd_throttling_def stats0_def)
  from o1 p1 e1 o2 e2 r1 r2 o3 p3 c3 r3 show ?thesis
    unfolding v1 by (intro conjI)
qed

theorem GetStats_parse_error_keeps_earlier_lines:
  "GetStats (stat_file [''nr_periods 10'', ''nr_throttled'']) getCgroupParamKeyValue ''/cg'' stats0 =
     (Some (ErrOther ''line is not in key value format''),
      \<lparr>CpuStats = \<lparr>CpuUsage = (),
          ThrottlingData = \<lparr>Periods = 10, ThrottledPeriods = 0, ThrottledTime = 0\<rparr>\<rparr>,
        OtherStats = ()\<rparr>) \<and>
   snd (GetStats (stat_file [''nr_periods 10'', ''nr_throttled'']) getCgroupParamKeyValue ''/cg'' stats0) \<noteq>
     stats0"
  by (simp add: GetStats_def stat_file_def parse_examples upd_throttling_def stats0_def)

text \<open>
  C10. \<open>GetStats\<close> changes at most the throttling counters of the stats record: whatever
  the file holds and whether the call succeeds or fails, the record it leaves is the
  record passed in with its \<open>ThrottlingData\<close> replaced, so the cpu usage and the
  statistics of every other subsystem are as they were.
\<close>

theorem GetStats_frame:
  "snd (GetStats open_lines parse dir stats) =
     upd_throttling (\<lambda>d. ThrottlingData (CpuStats (snd (GetStats open_lines parse dir stats)))) stats \<and>
   CpuUsage (CpuStats (snd (GetStats open_lines parse dir stats))) = CpuUsage (CpuStats stats) \<and>
   OtherStats (snd (GetStats open_lines parse dir stats)) = OtherStats stats"
proof -
  have frame: "snd (GetStats open_lines parse dir stats) =
     upd_throttling (\<lambda>d. ThrottlingData (CpuStats (snd (GetStats open_lines parse dir stats)))) stats"
  proof (cases "open_lines dir ''cpu.stat''")
    case (Inl err)
    then show ?thesis
      by (simp add: GetStats_def upd_throttling_def)
  next
    case (Inr ls)
    then have "GetStats open_lines parse dir stats = GetStats_loop parse ls stats"
      by (simp add: GetStats_def)
    then show ?thesis
      using GetStats_loop_frame [of parse ls stats] by simp
  qed
  have "CpuUsage (CpuStats (upd_throttling f stats)) = CpuUsage (CpuStats stats) \<and>
        OtherStats (upd_throttling f stats) = OtherStats stats" for f
    by (simp add: upd_throttling_def)
  from this [of "\<lambda>d. ThrottlingData (CpuStats (snd (GetStats open_lines parse dir stats)))"] frame
  show ?thesis by simp
qed


end
